theory Spec2Isabelle
  imports Complex_Main
begin

section \<open>Python values as they reach the bridge\<close>

text \<open>
  The bridge (\<^verbatim>\<open>bridge/bridge.py\<close>) handles the values that \<^verbatim>\<open>json.loads\<close> returns:
  \<^verbatim>\<open>None\<close>, booleans, integers, floats, strings, lists and dictionaries.
  A float is carried by the text that Python's \<^verbatim>\<open>repr\<close> prints for it (\<^verbatim>\<open>0.0\<close>,
  \<^verbatim>\<open>1.5\<close>, \<^verbatim>\<open>1e+16\<close>, \<^verbatim>\<open>inf\<close>, \<^verbatim>\<open>nan\<close>), which is all the bridge ever does with one:
  it tests it for truth and prints it. A dictionary is the list of its items in insertion
  order. A string is a list of characters, one \<^typ>\<open>char\<close> for each code point
  (code points below 256).
\<close>

datatype json =
    JNull
  | JBool bool
  | JInt int
  | JFloat string
  | JStr string
  | JArr "json list"
  | JObj "(string \<times> json) list"

text \<open>\<^verbatim>\<open>isinstance(x, Mapping)\<close>, \<^verbatim>\<open>isinstance(x, str)\<close>, \<^verbatim>\<open>x is not None\<close>.\<close>

fun is_Mapping :: "json \<Rightarrow> bool" where
  "is_Mapping (JObj kvs) = True"
| "is_Mapping v = False"

fun is_str :: "json \<Rightarrow> bool" where
  "is_str (JStr s) = True"
| "is_str v = False"

fun is_not_None :: "json \<Rightarrow> bool" where
  "is_not_None JNull = False"
| "is_not_None v = True"

text \<open>Python's truth value of an object, as \<^verbatim>\<open>x or {}\<close> and \<^verbatim>\<open>if x:\<close> test it.\<close>

fun truthy :: "json \<Rightarrow> bool" where
  "truthy JNull = False"
| "truthy (JBool b) = b"
| "truthy (JInt i) = (i \<noteq> 0)"
| "truthy (JFloat r) = (r \<noteq> ''0.0'' \<and> r \<noteq> ''-0.0'')"
| "truthy (JStr s) = (s \<noteq> [])"
| "truthy (JArr xs) = (xs \<noteq> [])"
| "truthy (JObj kvs) = (kvs \<noteq> [])"

text \<open>\<^verbatim>\<open>d.get(k)\<close>: the value stored under the key, \<^verbatim>\<open>None\<close> when the key is missing.\<close>

definition dict_get :: "(string \<times> json) list \<Rightarrow> string \<Rightarrow> json" where
  "dict_get d k = (case map_of d k of None \<Rightarrow> JNull | Some v \<Rightarrow> v)"

text \<open>\<^verbatim>\<open>d.get(k, default)\<close>: the default only when the key is missing.\<close>

definition dict_get_default :: "(string \<times> json) list \<Rightarrow> string \<Rightarrow> json \<Rightarrow> json" where
  "dict_get_default d k dflt = (case map_of d k of None \<Rightarrow> dflt | Some v \<Rightarrow> v)"

subsection \<open>Strings\<close>

text \<open>
  \<^verbatim>\<open>str.isspace\<close> on one character: the white space of Unicode below code point 256.
\<close>

definition isspace :: "char \<Rightarrow> bool" where
  "isspace c = ((of_char c :: nat) \<in> {9, 10, 11, 12, 13, 28, 29, 30, 31, 32, 133, 160})"

definition lstrip :: "string \<Rightarrow> string" where
  "lstrip s = dropWhile isspace s"

definition rstrip :: "string \<Rightarrow> string" where
  "rstrip s = rev (dropWhile isspace (rev s))"

definition strip :: "string \<Rightarrow> string" where
  "strip s = rstrip (lstrip s)"

text \<open>\<^verbatim>\<open>sep.join(xs)\<close>.\<close>

fun join :: "string \<Rightarrow> string list \<Rightarrow> string" where
  "join sep [] = []"
| "join sep [x] = x"
| "join sep (x # y # ys) = x @ sep @ join sep (y # ys)"

text \<open>Decimal digits of a natural number, and \<^verbatim>\<open>str\<close> of an integer.\<close>

definition digit_char :: "nat \<Rightarrow> char" where
  "digit_char d = char_of (48 + d)"

fun str_nat :: "nat \<Rightarrow> string" where
  "str_nat n = (if n < 10 then [digit_char n] else str_nat (n div 10) @ [digit_char (n mod 10)])"

declare str_nat.simps [simp del]

definition str_int :: "int \<Rightarrow> string" where
  "str_int i = (if i < 0 then CHR ''-'' # str_nat (nat (- i)) else str_nat (nat i))"

definition hex_char :: "nat \<Rightarrow> char" where
  "hex_char d = (if d < 10 then char_of (48 + d) else char_of (87 + d))"

definition hex2 :: "nat \<Rightarrow> string" where
  "hex2 n = [hex_char (n div 16 mod 16), hex_char (n mod 16)]"

text \<open>
  \<^verbatim>\<open>repr\<close> of a string: single quotes, unless the string holds a single quote and no
  double quote; the quote and the backslash are escaped, tab, newline and carriage return
  are written \<^verbatim>\<open>\t\<close>, \<^verbatim>\<open>\n\<close>, \<^verbatim>\<open>\r\<close>, and every other character that is not
  printable is written \<^verbatim>\<open>\xNN\<close>.
\<close>

definition printable :: "char \<Rightarrow> bool" where
  "printable c = (let n = (of_char c :: nat) in
     (32 \<le> n \<and> n < 127) \<or> (161 \<le> n \<and> n \<noteq> 173))"

definition repr_char :: "char \<Rightarrow> char \<Rightarrow> string" where
  "repr_char q c =
     (if c = q \<or> c = CHR 0x5C then [CHR 0x5C, c]
      else if c = CHR 0x09 then [CHR 0x5C, CHR ''t'']
      else if c = CHR 0x0A then [CHR 0x5C, CHR ''n'']
      else if c = CHR 0x0D then [CHR 0x5C, CHR ''r'']
      else if printable c then [c]
      else [CHR 0x5C, CHR ''x''] @ hex2 (of_char c))"

definition repr_str :: "string \<Rightarrow> string" where
  "repr_str s =
     (let q = (if CHR 0x27 \<in> set s \<and> CHR 0x22 \<notin> set s then CHR 0x22 else CHR 0x27)
      in [q] @ concat (map (repr_char q) s) @ [q])"

text \<open>
  \<^verbatim>\<open>repr(x)\<close> and \<^verbatim>\<open>str(x)\<close> (what an f-string prints for \<^verbatim>\<open>{x}\<close>); they differ
  on strings only.
\<close>

fun repr :: "json \<Rightarrow> string"
  and repr_list :: "json list \<Rightarrow> string list"
  and repr_items :: "(string \<times> json) list \<Rightarrow> string list" where
  "repr JNull = ''None''"
| "repr (JBool b) = (if b then ''True'' else ''False'')"
| "repr (JInt i) = str_int i"
| "repr (JFloat r) = r"
| "repr (JStr s) = repr_str s"
| "repr (JArr xs) = ''['' @ join '', '' (repr_list xs) @ '']''"
| "repr (JObj kvs) = ''{'' @ join '', '' (repr_items kvs) @ ''}''"
| "repr_list [] = []"
| "repr_list (x # xs) = repr x # repr_list xs"
| "repr_items [] = []"
| "repr_items (kv # kvs) = (repr_str (fst kv) @ '': '' @ repr (snd kv)) # repr_items kvs"

fun str :: "json \<Rightarrow> string" where
  "str (JStr s) = s"
| "str v = repr v"

subsection \<open>\<^verbatim>\<open>json.dumps(data, ensure_ascii=False)\<close>\<close>

text \<open>
  The standard encoder with its default separators: inside a string the double quote,
  the backslash and the control characters below 32 are escaped, everything else is
  written as it is.
\<close>

definition dumps_char :: "char \<Rightarrow> string" where
  "dumps_char c =
     (if c = CHR 0x22 then [CHR 0x5C, CHR 0x22]
      else if c = CHR 0x5C then [CHR 0x5C, CHR 0x5C]
      else if c = CHR 0x0A then [CHR 0x5C, CHR ''n'']
      else if c = CHR 0x0D then [CHR 0x5C, CHR ''r'']
      else if c = CHR 0x09 then [CHR 0x5C, CHR ''t'']
      else if c = CHR 0x08 then [CHR 0x5C, CHR ''b'']
      else if c = CHR 0x0C then [CHR 0x5C, CHR ''f'']
      else if (of_char c :: nat) < 32 then [CHR 0x5C, CHR ''u'', CHR ''0'', CHR ''0''] @ hex2 (of_char c)
      else [c])"

definition dumps_str :: "string \<Rightarrow> string" where
  "dumps_str s = [CHR 0x22] @ concat (map dumps_char s) @ [CHR 0x22]"

definition dumps_float :: "string \<Rightarrow> string" where
  "dumps_float r =
     (if r = ''nan'' then ''NaN''
      else if r = ''inf'' then ''Infinity''
      else if r = ''-inf'' then ''-Infinity''
      else r)"

fun dumps :: "json \<Rightarrow> string"
  and dumps_list :: "json list \<Rightarrow> string list"
  and dumps_items :: "(string \<times> json) list \<Rightarrow> string list" where
  "dumps JNull = ''null''"
| "dumps (JBool b) = (if b then ''true'' else ''false'')"
| "dumps (JInt i) = str_int i"
| "dumps (JFloat r) = dumps_float r"
| "dumps (JStr s) = dumps_str s"
| "dumps (JArr xs) = ''['' @ join '', '' (dumps_list xs) @ '']''"
| "dumps (JObj kvs) = ''{'' @ join '', '' (dumps_items kvs) @ ''}''"
| "dumps_list [] = []"
| "dumps_list (x # xs) = dumps x # dumps_list xs"
| "dumps_items [] = []"
| "dumps_items (kv # kvs) = (dumps_str (fst kv) @ '': '' @ dumps (snd kv)) # dumps_items kvs"

section \<open>The tool and the messages of the protocol\<close>

record ToolSpec =
  name :: string
  description :: string

definition to_mcp_dict :: "ToolSpec \<Rightarrow> json" where
  "to_mcp_dict tool =
     JObj [(''name'', JStr (name tool)),
           (''description'', JStr (description tool)),
           (''inputSchema'', JObj [
              (''type'', JStr ''object''),
              (''properties'', JObj [
                 (''action'', JObj [
                    (''type'', JStr ''string''),
                    (''description'', JStr ''Short Gmail action identifier (e.g. 'send_email').'')]),
                 (''payload'', JObj [
                    (''type'', JStr ''object''),
                    (''description'', JStr ''Details needed to execute the Gmail action.'')])]),
              (''required'', JArr [JStr ''action'']),
              (''additionalProperties'', JBool True)])]"

text \<open>The two shapes of reply that the bridge builds as dictionary literals.\<close>

definition result_reply :: "json \<Rightarrow> json \<Rightarrow> json" where
  "result_reply message_id res =
     JObj [(''jsonrpc'', JStr ''2.0''), (''id'', message_id), (''result'', res)]"

definition error_reply :: "json \<Rightarrow> int \<Rightarrow> string \<Rightarrow> json" where
  "error_reply message_id code msg =
     JObj [(''jsonrpc'', JStr ''2.0''), (''id'', message_id),
           (''error'', JObj [(''code'', JInt code), (''message'', JStr msg)])]"

section \<open>The environment of one dispatch, its effects and its exceptions\<close>

text \<open>
  What the outside world does during one call of \<^verbatim>\<open>_dispatch\<close> is a parameter:
  whether \<^verbatim>\<open>self._http_client\<close> is set, what the HTTP POST to the webhook does, and
  what \<^verbatim>\<open>ws.send\<close> does. A response carries its status, its body text, whether
  \<^verbatim>\<open>raise_for_status\<close> raises for it (the decision of the HTTP library), and what
  \<^verbatim>\<open>response.json()\<close> does.
\<close>

datatype json_outcome = JsonValue json | JSONDecodeError | JsonRaises string

record response =
  status_code :: int
  body_text :: string
  status_is_error :: bool
  json_body :: json_outcome

datatype post_outcome = Responds response | PostRaises string | PostCancelled

datatype send_outcome = SendOk | SendRaises | SendCancelled

record env =
  http_client_set :: bool
  webhook_post :: post_outcome
  ws_send :: send_outcome

text \<open>
  The exceptions that leave \<^verbatim>\<open>_dispatch\<close>: \<^verbatim>\<open>AttributeError\<close> from calling
  \<^verbatim>\<open>.get\<close> on a value that is no dictionary, an exception of the transport from
  \<^verbatim>\<open>ws.send\<close>, and \<^verbatim>\<open>asyncio.CancelledError\<close>, which is no \<^verbatim>\<open>Exception\<close>.
\<close>

datatype exn = AttributeError | TransportError | CancelledError

text \<open>
  The effects of a dispatch: the frames handed to \<^verbatim>\<open>ws.send\<close> (as values, before
  \<^verbatim>\<open>json.dumps\<close>), the bodies posted to the webhook, whether \<^verbatim>\<open>stop()\<close> was called.
\<close>

record effects =
  sent :: "json list"
  posted :: "json list"
  stop_called :: bool

definition no_effects :: effects where
  "no_effects = \<lparr>sent = [],
                posted = [], stop_called = False\<rparr>"

type_synonym outcome = "exn option \<times> effects"

definition send_json :: "env \<Rightarrow> json \<Rightarrow> effects \<Rightarrow> outcome" where
  "send_json e payload fx =
     (case ws_send e of
        SendOk \<Rightarrow> (None, fx\<lparr>sent := sent fx @ [payload]\<rparr>)
      | SendRaises \<Rightarrow> (Some TransportError, fx)
      | SendCancelled \<Rightarrow> (Some CancelledError, fx))"

section \<open>The webhook\<close>

datatype post_result =
    Returns json
  | HTTPStatusError int string
  | OtherException string
  | Cancelled

definition post_to_webhook :: "env \<Rightarrow> post_result" where
  "post_to_webhook e =
     (if \<not> http_client_set e then OtherException ''HTTP client is not initialised''
      else case webhook_post e of
             PostRaises msg \<Rightarrow> OtherException msg
           | PostCancelled \<Rightarrow> Cancelled
           | Responds r \<Rightarrow>
               if status_is_error r then HTTPStatusError (status_code r) (body_text r)
               else (case json_body r of
                       JsonValue v \<Rightarrow> Returns v
                     | JSONDecodeError \<Rightarrow> Returns (JStr (body_text r))
                     | JsonRaises msg \<Rightarrow> OtherException msg))"

text \<open>The loop of \<^verbatim>\<open>_format_webhook_response\<close> over the items of a list.\<close>

fun outputs_of :: "json list \<Rightarrow> string list" where
  "outputs_of [] = []"
| "outputs_of (item # rest) =
     (case item of
        JObj d \<Rightarrow>
          (case dict_get d ''output'' of
             JStr output \<Rightarrow>
               if strip output \<noteq> [] then strip output # outputs_of rest else outputs_of rest
           | _ \<Rightarrow> outputs_of rest)
      | _ \<Rightarrow> outputs_of rest)"

definition format_webhook_response :: "json \<Rightarrow> string" where
  "format_webhook_response data =
     (case data of
        JObj d \<Rightarrow>
          (case dict_get d ''message'' of
             JStr message \<Rightarrow> if strip message \<noteq> [] then message else dumps data
           | _ \<Rightarrow> dumps data)
      | JArr items \<Rightarrow>
          (let outputs = outputs_of items
           in if outputs \<noteq> [] then join [CHR 0x0A, CHR 0x0A] outputs else dumps data)
      | _ \<Rightarrow> str data)"

section \<open>The dispatcher\<close>

text \<open>
  \<^verbatim>\<open>message.get("params") or {}\<close>, followed by the first \<^verbatim>\<open>params.get\<close>: a value
  that is true and no dictionary has no \<^verbatim>\<open>get\<close>.
\<close>

definition params_of :: "(string \<times> json) list \<Rightarrow> exn + (string \<times> json) list" where
  "params_of message =
     (let p = dict_get message ''params''
      in if truthy p
         then (case p of JObj ps \<Rightarrow> Inr ps | _ \<Rightarrow> Inl AttributeError)
         else Inr [])"

definition handle_initialize :: "env \<Rightarrow> (string \<times> json) list \<Rightarrow> outcome" where
  "handle_initialize e message =
     (let message_id = dict_get message ''id''
      in case params_of message of
           Inl x \<Rightarrow> (Some x, no_effects)
         | Inr params \<Rightarrow>
             (let requested_version =
                    dict_get_default params ''protocolVersion'' (JStr ''2024-11-05'')
              in send_json e
                   (result_reply message_id
                      (JObj [(''protocolVersion'', requested_version),
                             (''capabilities'',
                                JObj [(''tools'', JObj [(''call'', JObj [])])])]))
                   no_effects))"

definition handle_tools_list :: "ToolSpec \<Rightarrow> env \<Rightarrow> (string \<times> json) list \<Rightarrow> outcome" where
  "handle_tools_list tool e message =
     (let message_id = dict_get message ''id''
      in send_json e
           (result_reply message_id (JObj [(''tools'', JArr [to_mcp_dict tool])]))
           no_effects)"

text \<open>
  The part of \<^verbatim>\<open>_handle_tools_call\<close> after the three checks: build the body, post it,
  and turn what comes back into the one reply.
\<close>

definition forward_call ::
  "env \<Rightarrow> json \<Rightarrow> json \<Rightarrow> json \<Rightarrow> (string \<times> json) list \<Rightarrow> json \<Rightarrow> outcome" where
  "forward_call e message_id tool_name call_id arguments action =
     (let raw_payload = dict_get arguments ''payload'';
          payload_data = (if is_Mapping raw_payload then raw_payload else JNull);
          payload = JObj [(''action'', action),
                          (''payload'', payload_data),
                          (''call_id'', call_id),
                          (''tool'', tool_name),
                          (''arguments'', JObj arguments)];
          fx = (if http_client_set e then no_effects\<lparr>posted := [payload]\<rparr> else no_effects)
      in case post_to_webhook e of
           HTTPStatusError status body \<Rightarrow>
             (let body_preview = take 2000 body
              in send_json e
                   (error_reply message_id (- 32010)
                      (''Gmail webhook returned HTTP '' @ str_int status @ '': '' @ body_preview))
                   fx)
         | OtherException exc \<Rightarrow>
             send_json e (error_reply message_id (- 32001) (''Gmail agent error: '' @ exc)) fx
         | Cancelled \<Rightarrow> (Some CancelledError, fx)
         | Returns webhook_response \<Rightarrow>
             (let content_text = format_webhook_response webhook_response;
                  result = [(''content'',
                               JArr [JObj [(''type'', JStr ''text''),
                                           (''text'', JStr content_text)]]),
                            (''isError'', JBool False)];
                  result = (if truthy call_id then result @ [(''callId'', call_id)] else result)
              in send_json e (result_reply message_id (JObj result)) fx))"

definition handle_tools_call :: "ToolSpec \<Rightarrow> env \<Rightarrow> (string \<times> json) list \<Rightarrow> outcome" where
  "handle_tools_call tool e message =
     (let message_id = dict_get message ''id''
      in case params_of message of
           Inl x \<Rightarrow> (Some x, no_effects)
         | Inr params \<Rightarrow>
             (let tool_name = dict_get params ''name'';
                  arguments = dict_get params ''arguments'';
                  call_id = dict_get params ''callId''
              in if tool_name \<noteq> JStr (name tool)
                 then send_json e
                        (error_reply message_id (- 32602)
                           (''Unsupported tool '' @ [CHR 0x27] @ str tool_name @ [CHR 0x27]))
                        no_effects
                 else (case arguments of
                         JObj args \<Rightarrow>
                           (let action = dict_get args ''action''
                            in if \<not> is_str action \<or> strip (str action) = []
                               then send_json e
                                      (error_reply message_id (- 32602)
                                         (''Tool arguments must include non-empty ''
                                            @ [CHR 0x27] @ ''action'' @ [CHR 0x27]))
                                      no_effects
                               else forward_call e message_id tool_name call_id args action)
                       | _ \<Rightarrow>
                           send_json e
                             (error_reply message_id (- 32602)
                                ''Tool arguments must be an object'')
                             no_effects)))"

text \<open>\<^verbatim>\<open>stop()\<close> sets the event; \<^verbatim>\<open>_dispatch\<close> calls it after the reply to \<^verbatim>\<open>shutdown\<close>.\<close>

definition dispatch_msg :: "ToolSpec \<Rightarrow> env \<Rightarrow> (string \<times> json) list \<Rightarrow> outcome" where
  "dispatch_msg tool e message =
     (let method = dict_get message ''method'';
          message_id = dict_get message ''id''
      in if method = JStr ''initialize'' then handle_initialize e message
         else if method = JStr ''notifications/initialized'' then (None, no_effects)
         else if method = JStr ''tools/list'' then handle_tools_list tool e message
         else if method = JStr ''tools/call'' then handle_tools_call tool e message
         else if method = JStr ''ping''
           then send_json e (result_reply message_id (JObj [])) no_effects
         else if method = JStr ''shutdown''
           then (case send_json e (result_reply message_id (JObj [])) no_effects of
                   (None, fx) \<Rightarrow> (None, fx\<lparr>stop_called := True\<rparr>)
                 | (Some x, fx) \<Rightarrow> (Some x, fx))
         else if is_not_None message_id
           then send_json e
                  (error_reply message_id (- 32601)
                     (''Method '' @ [CHR 0x27] @ str method @ [CHR 0x27]
                        @ '' not implemented by gmail bridge''))
                  no_effects
         else (None, no_effects))"

text \<open>
  \<^verbatim>\<open>_dispatch\<close> on whatever \<^verbatim>\<open>json.loads\<close> returned: \<^verbatim>\<open>message.get\<close> exists on a
  dictionary only.
\<close>

definition dispatch :: "ToolSpec \<Rightarrow> env \<Rightarrow> json \<Rightarrow> outcome" where
  "dispatch tool e message =
     (case message of
        JObj m \<Rightarrow> dispatch_msg tool e m
      | _ \<Rightarrow> (Some AttributeError, no_effects))"

section \<open>The session and the reconnect loop\<close>

text \<open>
  The loops of \<^verbatim>\<open>_handle_session\<close> and \<^verbatim>\<open>run\<close> wait for the outside world: for a
  connection, for a frame, for the end of a sleep. A script lists what the world answers
  at each wait, and whether \<^verbatim>\<open>stop()\<close> is called from outside while that step is in
  progress. A loop that reaches a wait for which the script has no answer is
  \<open>Pending\<close>: it would wait for ever.

  What \<^verbatim>\<open>ws.recv()\<close> and the decoding of the frame give: one of the two
  \<^verbatim>\<open>ConnectionClosed\<close> exceptions that the loop catches, another exception, a
  cancellation, bytes that are not UTF-8, text that \<^verbatim>\<open>json.loads\<close> rejects, or the
  value \<^verbatim>\<open>json.loads\<close> returns, with what the webhook and \<^verbatim>\<open>ws.send\<close> do while that
  message is dispatched.
\<close>

datatype recv_outcome =
    ConnectionClosedOK
  | ConnectionClosedError
  | RecvRaises
  | RecvCancelled
  | BytesNotUTF8
  | NotJSON
  | Parsed json post_outcome send_outcome

text \<open>What an observer sees of a run, in order.\<close>

datatype event = Connect | Sleep real | Post json | Send json | StopSet

datatype ending = Normal | Raised exn | Pending

definition events_of :: "effects \<Rightarrow> event list" where
  "events_of fx =
     map Post (posted fx) @ map Send (sent fx) @ (if stop_called fx then [StopSet] else [])"

definition stop_events :: "bool \<Rightarrow> event list" where
  "stop_events stop_req = (if stop_req then [StopSet] else [])"

fun handle_session ::
  "ToolSpec \<Rightarrow> bool \<Rightarrow> bool \<Rightarrow> (recv_outcome \<times> bool) list \<Rightarrow> ending \<times> bool \<times> event list" where
  "handle_session tool client stopping [] =
     (if stopping then (Normal, stopping, []) else (Pending, stopping, []))"
| "handle_session tool client stopping ((raw, stop_req) # rest) =
     (if stopping then (Normal, stopping, [])
      else
        (case raw of
           ConnectionClosedOK \<Rightarrow> (Normal, stop_req, stop_events stop_req)
         | ConnectionClosedError \<Rightarrow> (Normal, stop_req, stop_events stop_req)
         | RecvRaises \<Rightarrow> (Raised TransportError, stop_req, stop_events stop_req)
         | RecvCancelled \<Rightarrow> (Raised CancelledError, stop_req, stop_events stop_req)
         | BytesNotUTF8 \<Rightarrow>
             (case handle_session tool client stop_req rest of
                (en, st, evs) \<Rightarrow> (en, st, stop_events stop_req @ evs))
         | NotJSON \<Rightarrow>
             (case handle_session tool client stop_req rest of
                (en, st, evs) \<Rightarrow> (en, st, stop_events stop_req @ evs))
         | Parsed message po so \<Rightarrow>
             (case dispatch tool
                     \<lparr>http_client_set = client, webhook_post = po, ws_send = so\<rparr> message of
                (Some x, fx) \<Rightarrow>
                  (Raised x, stop_req \<or> stop_called fx, stop_events stop_req @ events_of fx)
              | (None, fx) \<Rightarrow>
                  (case handle_session tool client (stop_req \<or> stop_called fx) rest of
                     (en, st, evs) \<Rightarrow> (en, st, stop_events stop_req @ events_of fx @ evs)))))"

text \<open>
  One pass through the body of the \<^verbatim>\<open>while\<close> loop of \<^verbatim>\<open>run\<close>: the connection
  attempt, the session when the connection is made, and the handler of
  \<^verbatim>\<open>except Exception\<close>, which sleeps \<^verbatim>\<open>backoff\<close> seconds and then doubles
  \<^verbatim>\<open>backoff\<close> up to 60. \<^verbatim>\<open>CancelledError\<close> is raised again.
\<close>

datatype connect_outcome = ConnectOk | ConnectRaises | ConnectCancelled

datatype sleep_outcome = SleepDone | SleepCancelled

record attempt =
  connecting :: connect_outcome
  stop_while_connecting :: bool
  frames :: "(recv_outcome \<times> bool) list"
  sleeping :: sleep_outcome
  stop_while_sleeping :: bool

datatype pass = Continue real bool "event list" | Leave ending "event list"

definition handle_exception :: "real \<Rightarrow> bool \<Rightarrow> event list \<Rightarrow> attempt \<Rightarrow> pass" where
  "handle_exception backoff stopping evs a =
     (case sleeping a of
        SleepCancelled \<Rightarrow>
          Leave (Raised CancelledError)
            (evs @ [Sleep backoff] @ stop_events (stop_while_sleeping a))
      | SleepDone \<Rightarrow>
          Continue (min (backoff * 2) 60) (stopping \<or> stop_while_sleeping a)
            (evs @ [Sleep backoff] @ stop_events (stop_while_sleeping a)))"

definition run_pass :: "ToolSpec \<Rightarrow> real \<Rightarrow> real \<Rightarrow> attempt \<Rightarrow> pass" where
  "run_pass tool reconnect_delay backoff a =
     (let evs = Connect # stop_events (stop_while_connecting a)
      in case connecting a of
           ConnectCancelled \<Rightarrow> Leave (Raised CancelledError) evs
         | ConnectRaises \<Rightarrow> handle_exception backoff (stop_while_connecting a) evs a
         | ConnectOk \<Rightarrow>
             (case handle_session tool True (stop_while_connecting a) (frames a) of
                (Normal, stopping, sevs) \<Rightarrow> Continue reconnect_delay stopping (evs @ sevs)
              | (Pending, stopping, sevs) \<Rightarrow> Leave Pending (evs @ sevs)
              | (Raised CancelledError, stopping, sevs) \<Rightarrow>
                  Leave (Raised CancelledError) (evs @ sevs)
              | (Raised x, stopping, sevs) \<Rightarrow>
                  handle_exception reconnect_delay stopping (evs @ sevs) a))"

fun run_loop ::
  "ToolSpec \<Rightarrow> real \<Rightarrow> real \<Rightarrow> bool \<Rightarrow> attempt list \<Rightarrow> ending \<times> event list" where
  "run_loop tool reconnect_delay backoff stopping [] =
     (if stopping then (Normal, []) else (Pending, []))"
| "run_loop tool reconnect_delay backoff stopping (a # rest) =
     (if stopping then (Normal, [])
      else
        (case run_pass tool reconnect_delay backoff a of
           Leave en evs \<Rightarrow> (en, evs)
         | Continue backoff' stopping' evs \<Rightarrow>
             (case run_loop tool reconnect_delay backoff' stopping' rest of
                (en, evs') \<Rightarrow> (en, evs @ evs'))))"

text \<open>The bridge object, \<^verbatim>\<open>stop\<close> and \<^verbatim>\<open>run\<close>.\<close>

record bridge =
  ws_url :: string
  webhook_url :: string
  tool :: ToolSpec
  reconnect_delay :: real
  stopping :: bool

definition stop :: "bridge \<Rightarrow> bridge" where
  "stop b = b\<lparr>stopping := True\<rparr>"

definition run :: "bridge \<Rightarrow> attempt list \<Rightarrow> ending \<times> event list" where
  "run b script = run_loop (tool b) (reconnect_delay b) (reconnect_delay b) (stopping b) script"

section \<open>Definitions that the properties are stated with\<close>

text \<open>
  The outputs of a list as the description of the response format words them: of the
  items that are dictionaries with a string under \<^verbatim>\<open>output\<close>, those whose string is not
  only white space, each one stripped.
\<close>

definition output_strings :: "json list \<Rightarrow> string list" where
  "output_strings items =
     concat (map (\<lambda>item. case item of
                            JObj d \<Rightarrow> (case dict_get d ''output'' of JStr s \<Rightarrow> [s] | _ \<Rightarrow> [])
                          | _ \<Rightarrow> []) items)"

definition stripped_outputs :: "json list \<Rightarrow> string list" where
  "stripped_outputs items = map strip (filter (\<lambda>s. strip s \<noteq> []) (output_strings items))"

text \<open>The waits of a run, in order, and the wait after \<open>n\<close> doublings.\<close>

fun sleeps :: "event list \<Rightarrow> real list" where
  "sleeps [] = []"
| "sleeps (Sleep d # evs) = d # sleeps evs"
| "sleeps (ev # evs) = sleeps evs"

definition doubled :: "real \<Rightarrow> nat \<Rightarrow> real" where
  "doubled base n = ((\<lambda>backoff. min (backoff * 2) 60) ^^ n) base"

text \<open>A connection attempt that fails, with no request to stop.\<close>

definition failed_attempt :: attempt where
  "failed_attempt =
     \<lparr>connecting = ConnectRaises, stop_while_connecting = False, frames = [],
      sleeping = SleepDone, stop_while_sleeping = False\<rparr>"

text \<open>
  Concrete inputs: the tool that \<^verbatim>\<open>parse_args\<close> configures by default, a
  \<^verbatim>\<open>tools/call\<close> request with a given \<^verbatim>\<open>id\<close> and \<^verbatim>\<open>params\<close>, and an environment
  in which the client is set, the transport accepts every frame and the webhook does as
  given.
\<close>

definition gmail_tool :: ToolSpec where
  "gmail_tool =
     \<lparr>name = ''gmail_action'',
      description = ''Forward Gmail-related commands to the Gmail n8n workflow.''\<rparr>"

definition tools_call :: "json \<Rightarrow> json \<Rightarrow> (string \<times> json) list" where
  "tools_call message_id params =
     [(''jsonrpc'', JStr ''2.0''), (''id'', message_id), (''method'', JStr ''tools/call''),
      (''params'', params)]"

definition env_with :: "post_outcome \<Rightarrow> env" where
  "env_with po = \<lparr>http_client_set = True, webhook_post = po, ws_send = SendOk\<rparr>"

definition answers :: "json \<Rightarrow> post_outcome" where
  "answers v =
     Responds \<lparr>status_code = 200, body_text = dumps v, status_is_error = False,
               json_body = JsonValue v\<rparr>"

text \<open>
  A bridge that has not been asked to stop, with a given reconnect delay, and a
  connection attempt that succeeds and then sees the given frames.
\<close>

definition bridge_with :: "real \<Rightarrow> bridge" where
  "bridge_with delay =
     \<lparr>ws_url = ''wss://api.xiaozhi.me/mcp/'', webhook_url = ''https://n8n.example/webhook/xiaozhi'',
      tool = gmail_tool, reconnect_delay = delay, stopping = False\<rparr>"

definition connected_attempt :: "(recv_outcome \<times> bool) list \<Rightarrow> attempt" where
  "connected_attempt fs =
     \<lparr>connecting = ConnectOk, stop_while_connecting = False, frames = fs,
      sleeping = SleepDone, stop_while_sleeping = False\<rparr>"

section \<open>Properties of the dispatcher\<close>

text \<open>
  The statements below write every frame and every record of effects out in full; the
  proofs unfold the three abbreviating definitions of the model.
\<close>

declare error_reply_def [simp] result_reply_def [simp] no_effects_def [simp]

lemma send_json_ok:
  "ws_send e = SendOk \<Longrightarrow> send_json e p fx = (None, fx\<lparr>sent := sent fx @ [p]\<rparr>)"
  by (simp add: send_json_def)

text \<open>
  C1 (the code departs from it). Every frame that is a JSON object with a non-null
  \<^verbatim>\<open>id\<close> should get exactly one reply. The request
  \<^verbatim>\<open>{"jsonrpc": "2.0", "id": 1, "method": "initialize", "params": [1]}\<close> gets none:
  \<^verbatim>\<open>message.get("params") or {}\<close> keeps the list, \<^verbatim>\<open>params.get\<close> raises
  \<^verbatim>\<open>AttributeError\<close>, and nothing is sent, whatever the tool and the environment.
\<close>

theorem initialize_with_list_params_raises:
  "dispatch t e
     (JObj [(''jsonrpc'', JStr ''2.0''), (''id'', JInt 1), (''method'', JStr ''initialize''),
            (''params'', JArr [JInt 1])])
   = (Some AttributeError, \<lparr>sent = [],
                posted = [], stop_called = False\<rparr>)"
  by (simp add: dispatch_def dispatch_msg_def handle_initialize_def params_of_def dict_get_def)

text \<open>
  C9. A message whose \<^verbatim>\<open>method\<close> is none of the six that the dispatcher knows (a
  missing method included) is answered, when its \<^verbatim>\<open>id\<close> is not null, by exactly one
  frame: the error with code -32601 and the same \<^verbatim>\<open>id\<close>; when the \<^verbatim>\<open>id\<close> is null
  or missing, nothing is sent. The transport is taken to accept the frame.
\<close>

theorem unrecognized_method_reply:
  assumes "dict_get m ''method'' \<notin> {JStr ''initialize'', JStr ''notifications/initialized'',
             JStr ''tools/list'', JStr ''tools/call'', JStr ''ping'', JStr ''shutdown''}"
    and "ws_send e = SendOk"
  shows "dispatch t e (JObj m) =
           (None, \<lparr>sent = (if dict_get m ''id'' \<noteq> JNull
               then [(JObj [(''jsonrpc'', JStr ''2.0''), (''id'', dict_get m ''id''),
                  (''error'', JObj [(''code'', JInt (- 32601)),
                     (''message'', JStr (''Method '' @ [CHR 0x27] @ str (dict_get m ''method'') @ [CHR 0x27] @ '' not implemented by gmail bridge''))])])]
               else []), posted = [], stop_called = False\<rparr>)"
proof (cases "dict_get m ''id''")
  case JNull
  with assms show ?thesis
    by (simp add: dispatch_def dispatch_msg_def Let_def no_effects_def)
qed (use assms in \<open>simp_all add: dispatch_def dispatch_msg_def Let_def send_json_ok no_effects_def\<close>)

theorem unrecognized_method_reply_witness:
  "dict_get [(''jsonrpc'', JStr ''2.0''), (''id'', JInt 7), (''method'', JStr ''resources/list'')]
       ''method''
     \<notin> {JStr ''initialize'', JStr ''notifications/initialized'',
         JStr ''tools/list'', JStr ''tools/call'', JStr ''ping'', JStr ''shutdown''}
   \<and> dispatch \<lparr>name = ''gmail_action'', description = ''''\<rparr>
        \<lparr>http_client_set = True, webhook_post = PostRaises '''', ws_send = SendOk\<rparr>
        (JObj [(''jsonrpc'', JStr ''2.0''), (''id'', JInt 7), (''method'', JStr ''resources/list'')])
      = (None, \<lparr>sent = [(JObj [(''jsonrpc'', JStr ''2.0''), (''id'', JInt 7),
                  (''error'', JObj [(''code'', JInt (- 32601)),
                     (''message'', JStr ''Method 'resources/list' not implemented by gmail bridge'')])])],
                posted = [], stop_called = False\<rparr>)"
proof -
  have h: "dict_get [(''jsonrpc'', JStr ''2.0''), (''id'', JInt 7),
                     (''method'', JStr ''resources/list'')] ''method''
     \<notin> {JStr ''initialize'', JStr ''notifications/initialized'',
         JStr ''tools/list'', JStr ''tools/call'', JStr ''ping'', JStr ''shutdown''}"
    by (simp add: dict_get_def)
  have s: "ws_send \<lparr>http_client_set = True, webhook_post = PostRaises '''', ws_send = SendOk\<rparr>
             = SendOk"
    by simp
  show ?thesis
    using h unrecognized_method_reply [OF h s, of "\<lparr>name = ''gmail_action'', description = ''''\<rparr>"]
    by (simp add: dict_get_def)
qed

lemma params_of_object: "dict_get m ''params'' = JObj ps \<Longrightarrow> params_of m = Inr ps"
  by (cases ps) (simp_all add: params_of_def)

lemma params_of_total:
  "\<not> truthy (dict_get m ''params'') \<or> is_Mapping (dict_get m ''params'')
     \<Longrightarrow> \<exists>ps. params_of m = Inr ps"
  by (cases "dict_get m ''params''") (auto simp: params_of_def Let_def)

lemma post_to_webhook_cancelled:
  "post_to_webhook e = Cancelled \<Longrightarrow> webhook_post e = PostCancelled"
  by (auto simp: post_to_webhook_def split: if_splits post_outcome.splits json_outcome.splits)

lemma forward_call_no_raise:
  assumes "ws_send e = SendOk" and "webhook_post e \<noteq> PostCancelled"
  shows "fst (forward_call e mid tn cid args act) = None"
proof (cases "post_to_webhook e")
  case Cancelled
  with assms post_to_webhook_cancelled show ?thesis by blast
qed (simp_all add: forward_call_def Let_def send_json_ok assms)

lemma handle_tools_call_no_raise:
  assumes "params_of m = Inr ps" and "ws_send e = SendOk" and "webhook_post e \<noteq> PostCancelled"
  shows "fst (handle_tools_call t e m) = None"
  using assms
  by (simp add: handle_tools_call_def Let_def send_json_ok forward_call_no_raise split: json.splits)

lemma handle_initialize_no_raise:
  assumes "params_of m = Inr ps" and "ws_send e = SendOk"
  shows "fst (handle_initialize e m) = None"
  using assms by (simp add: handle_initialize_def Let_def send_json_ok)

lemma dispatch_msg_no_raise:
  assumes "params_of m = Inr ps" and "ws_send e = SendOk" and "webhook_post e \<noteq> PostCancelled"
  shows "fst (dispatch_msg t e m) = None"
  using assms
  by (simp add: dispatch_msg_def Let_def send_json_ok handle_tools_call_no_raise
      handle_initialize_no_raise handle_tools_list_def)

lemma tools_call_null_params:
  assumes "dict_get m ''method'' = JStr ''tools/call''" and "dict_get m ''params'' = JNull"
    and "ws_send e = SendOk"
  shows "dispatch t e (JObj m) =
     (None, \<lparr>sent = [(JObj [(''jsonrpc'', JStr ''2.0''), (''id'', dict_get m ''id''),
                  (''error'', JObj [(''code'', JInt (- 32602)),
                     (''message'', JStr (''Unsupported tool 'None'' @ [CHR 0x27]))])])],
                posted = [], stop_called = False\<rparr>)"
  using assms
  by (simp add: dispatch_def dispatch_msg_def handle_tools_call_def params_of_def Let_def
      send_json_ok dict_get_def no_effects_def)

text \<open>
  C10. On a frame that is a JSON object the dispatcher raises nothing when \<^verbatim>\<open>params\<close>
  is missing, null (or any other value that Python counts as false) or an object,
  whatever \<^verbatim>\<open>method\<close>, \<^verbatim>\<open>id\<close>, \<^verbatim>\<open>name\<close> and \<^verbatim>\<open>arguments\<close> are, missing and null
  included; and a \<^verbatim>\<open>tools/call\<close> whose \<^verbatim>\<open>params\<close> are missing or null is answered
  with the error -32602 \<^verbatim>\<open>Unsupported tool 'None'\<close>. The transport is taken to accept
  the frame and the task not to be cancelled during the webhook call.
\<close>

theorem dispatch_total_on_missing_fields:
  assumes "\<not> truthy (dict_get m ''params'') \<or> is_Mapping (dict_get m ''params'')"
    and "ws_send e = SendOk" and "webhook_post e \<noteq> PostCancelled"
  shows "fst (dispatch t e (JObj m)) = None
       \<and> (dict_get m ''method'' = JStr ''tools/call'' \<and> dict_get m ''params'' = JNull
           \<longrightarrow> dispatch t e (JObj m) =
                 (None, \<lparr>sent = [(JObj [(''jsonrpc'', JStr ''2.0''), (''id'', dict_get m ''id''),
                  (''error'', JObj [(''code'', JInt (- 32602)),
                     (''message'', JStr (''Unsupported tool 'None'' @ [CHR 0x27]))])])],
                posted = [], stop_called = False\<rparr>))"
proof -
  from assms(1) obtain ps where "params_of m = Inr ps"
    using params_of_total by blast
  then have "fst (dispatch t e (JObj m)) = None"
    using assms(2,3) by (simp add: dispatch_def dispatch_msg_no_raise)
  then show ?thesis
    using tools_call_null_params [OF _ _ assms(2)] by blast
qed

theorem dispatch_total_on_missing_fields_witness:
  "(\<not> truthy (dict_get [(''method'', JStr ''tools/call''), (''params'', JNull)] ''params''))
   \<and> fst (dispatch \<lparr>name = ''gmail_action'', description = ''''\<rparr>
             \<lparr>http_client_set = True, webhook_post = PostRaises '''', ws_send = SendOk\<rparr>
             (JObj [(''method'', JStr ''tools/call''), (''params'', JNull)])) = None
   \<and> dispatch \<lparr>name = ''gmail_action'', description = ''''\<rparr>
        \<lparr>http_client_set = True, webhook_post = PostRaises '''', ws_send = SendOk\<rparr>
        (JObj [(''method'', JStr ''tools/call''), (''params'', JNull)])
      = (None, \<lparr>sent = [(JObj [(''jsonrpc'', JStr ''2.0''), (''id'', JNull),
                  (''error'', JObj [(''code'', JInt (- 32602)),
                     (''message'', JStr (''Unsupported tool 'None'' @ [CHR 0x27]))])])],
                posted = [], stop_called = False\<rparr>)"
proof -
  have p: "\<not> truthy (dict_get [(''method'', JStr ''tools/call''), (''params'', JNull)] ''params'')
           \<or> is_Mapping (dict_get [(''method'', JStr ''tools/call''), (''params'', JNull)] ''params'')"
    by (simp add: dict_get_def)
  have s: "ws_send \<lparr>http_client_set = True, webhook_post = PostRaises '''', ws_send = SendOk\<rparr>
             = SendOk"
    by simp
  have c: "webhook_post \<lparr>http_client_set = True, webhook_post = PostRaises '''', ws_send = SendOk\<rparr>
             \<noteq> PostCancelled"
    by simp
  show ?thesis
    using dispatch_total_on_missing_fields
      [OF p s c, of "\<lparr>name = ''gmail_action'', description = ''''\<rparr>"]
    by (simp add: dict_get_def)
qed

text \<open>
  Apart from the \<^verbatim>\<open>params\<close> of C1, the dispatcher does reply exactly once: when
  \<^verbatim>\<open>params\<close> is an object, missing or false, the \<^verbatim>\<open>id\<close> is not null and the method
  is not \<^verbatim>\<open>notifications/initialized\<close>, nothing is raised and one frame is sent.
\<close>

lemma forward_call_replies_once:
  assumes "ws_send e = SendOk" and "webhook_post e \<noteq> PostCancelled"
  shows "length (sent (snd (forward_call e mid tn cid args act))) = 1"
proof (cases "post_to_webhook e")
  case Cancelled
  with assms post_to_webhook_cancelled show ?thesis by blast
qed (simp_all add: forward_call_def Let_def send_json_ok assms no_effects_def)

lemma dispatch_replies_once:
  assumes "params_of m = Inr ps" and "ws_send e = SendOk" and "webhook_post e \<noteq> PostCancelled"
    and "dict_get m ''id'' \<noteq> JNull"
    and "dict_get m ''method'' \<noteq> JStr ''notifications/initialized''"
  shows "fst (dispatch t e (JObj m)) = None \<and> length (sent (snd (dispatch t e (JObj m)))) = 1"
proof -
  have n: "is_not_None (dict_get m ''id'')"
    using assms(4) by (cases "dict_get m ''id''") simp_all
  have "length (sent (snd (dispatch_msg t e m))) = 1"
    using assms(1,2,3,5) n
    by (simp add: dispatch_msg_def handle_initialize_def handle_tools_list_def
        handle_tools_call_def Let_def send_json_ok forward_call_replies_once no_effects_def
        split: json.splits)
  then show ?thesis
    using dispatch_msg_no_raise [OF assms(1,2,3)] by (simp add: dispatch_def)
qed

lemma tools_call_forwarded:
  assumes "dict_get m ''method'' = JStr ''tools/call''" and "params_of m = Inr ps"
    and "dict_get ps ''name'' = JStr (name t)" and "dict_get ps ''arguments'' = JObj a"
    and "dict_get a ''action'' = JStr s" and "strip s \<noteq> []"
  shows "dispatch t e (JObj m) =
           forward_call e (dict_get m ''id'') (JStr (name t)) (dict_get ps ''callId'') a (JStr s)"
  using assms
  by (simp add: dispatch_def dispatch_msg_def handle_tools_call_def Let_def)

lemma tools_call_wrong_name:
  assumes "dict_get m ''method'' = JStr ''tools/call''" and "params_of m = Inr ps"
    and "ws_send e = SendOk" and "dict_get ps ''name'' \<noteq> JStr (name t)"
  shows "dispatch t e (JObj m) =
           (None, \<lparr>sent = [(JObj [(''jsonrpc'', JStr ''2.0''), (''id'', dict_get m ''id''),
                  (''error'', JObj [(''code'', JInt (- 32602)),
                     (''message'', JStr (''Unsupported tool '' @ [CHR 0x27] @ str (dict_get ps ''name'') @ [CHR 0x27]))])])],
                posted = [], stop_called = False\<rparr>)"
  using assms
  by (simp add: dispatch_def dispatch_msg_def handle_tools_call_def Let_def send_json_ok
      no_effects_def)

lemma tools_call_arguments_not_object:
  assumes "dict_get m ''method'' = JStr ''tools/call''" and "params_of m = Inr ps"
    and "ws_send e = SendOk" and "dict_get ps ''name'' = JStr (name t)"
    and "\<not> is_Mapping (dict_get ps ''arguments'')"
  shows "dispatch t e (JObj m) =
           (None, \<lparr>sent = [(JObj [(''jsonrpc'', JStr ''2.0''), (''id'', dict_get m ''id''),
                  (''error'', JObj [(''code'', JInt (- 32602)),
                     (''message'', JStr ''Tool arguments must be an object'')])])],
                posted = [], stop_called = False\<rparr>)"
  using assms
  by (cases "dict_get ps ''arguments''")
    (simp_all add: dispatch_def dispatch_msg_def handle_tools_call_def Let_def send_json_ok
      no_effects_def)

lemma tools_call_bad_action:
  assumes "dict_get m ''method'' = JStr ''tools/call''" and "params_of m = Inr ps"
    and "ws_send e = SendOk" and "dict_get ps ''name'' = JStr (name t)"
    and "dict_get ps ''arguments'' = JObj a"
    and "\<not> is_str (dict_get a ''action'') \<or> strip (str (dict_get a ''action'')) = []"
  shows "dispatch t e (JObj m) =
           (None, \<lparr>sent = [(JObj [(''jsonrpc'', JStr ''2.0''), (''id'', dict_get m ''id''),
                  (''error'', JObj [(''code'', JInt (- 32602)),
                     (''message'', JStr (''Tool arguments must include non-empty '' @ [CHR 0x27] @ ''action'' @ [CHR 0x27]))])])],
                posted = [], stop_called = False\<rparr>)"
  using assms
  by (simp add: dispatch_def dispatch_msg_def handle_tools_call_def Let_def send_json_ok
      no_effects_def)

lemma forward_call_posted:
  assumes "http_client_set e" and "ws_send e = SendOk"
    and "\<not> is_Mapping (dict_get a ''payload'')"
  shows "posted (snd (forward_call e mid tn cid a act)) =
           [JObj [(''action'', act), (''payload'', JNull), (''call_id'', cid), (''tool'', tn),
                  (''arguments'', JObj a)]]"
  using assms
  by (cases "post_to_webhook e")
    (simp_all add: forward_call_def Let_def send_json_ok no_effects_def)

text \<open>
  A \<^verbatim>\<open>tools/call\<close> whose \<^verbatim>\<open>params\<close> are an object (or missing, or false) is
  checked in the order of C2, and each failure sends exactly one error -32602 with the
  request's \<^verbatim>\<open>id\<close> and posts nothing to the webhook: the name (whatever the arguments
  are), then that the arguments are an object (whatever the action is), then that the
  action is a string with something other than white space in it. A \<^verbatim>\<open>payload\<close> that
  is no object is no error: the call is posted with \<^verbatim>\<open>null\<close> as the payload of the
  body, as when it is missing, and a webhook that returns a value gets the result reply.
\<close>

lemma tools_call_checks_in_order:
  assumes "dict_get m ''method'' = JStr ''tools/call''" and "params_of m = Inr ps"
    and "ws_send e = SendOk"
  shows "(dict_get ps ''name'' \<noteq> JStr (name t) \<longrightarrow>
            dispatch t e (JObj m) =
              (None,
               \<lparr>sent = [JObj [(''jsonrpc'', JStr ''2.0''), (''id'', dict_get m ''id''),
                               (''error'',
                                  JObj [(''code'', JInt (- 32602)),
                                        (''message'',
                                           JStr (''Unsupported tool '' @ [CHR 0x27]
                                                   @ str (dict_get ps ''name'')
                                                   @ [CHR 0x27]))])]],
                posted = [], stop_called = False\<rparr>))
       \<and> (dict_get ps ''name'' = JStr (name t) \<and> \<not> is_Mapping (dict_get ps ''arguments'') \<longrightarrow>
            dispatch t e (JObj m) =
              (None,
               \<lparr>sent = [JObj [(''jsonrpc'', JStr ''2.0''), (''id'', dict_get m ''id''),
                               (''error'',
                                  JObj [(''code'', JInt (- 32602)),
                                        (''message'',
                                           JStr ''Tool arguments must be an object'')])]],
                posted = [], stop_called = False\<rparr>))
       \<and> (dict_get ps ''name'' = JStr (name t) \<and> dict_get ps ''arguments'' = JObj a
            \<and> (\<not> is_str (dict_get a ''action'') \<or> strip (str (dict_get a ''action'')) = []) \<longrightarrow>
            dispatch t e (JObj m) =
              (None,
               \<lparr>sent = [JObj [(''jsonrpc'', JStr ''2.0''), (''id'', dict_get m ''id''),
                               (''error'',
                                  JObj [(''code'', JInt (- 32602)),
                                        (''message'',
                                           JStr (''Tool arguments must include non-empty ''
                                                   @ [CHR 0x27] @ ''action''
                                                   @ [CHR 0x27]))])]],
                posted = [], stop_called = False\<rparr>))
       \<and> (dict_get ps ''name'' = JStr (name t) \<and> dict_get ps ''arguments'' = JObj a
            \<and> dict_get a ''action'' = JStr s \<and> strip s \<noteq> []
            \<and> \<not> is_Mapping (dict_get a ''payload'') \<and> post_to_webhook e = Returns v \<longrightarrow>
            dispatch t e (JObj m) =
              (None,
               \<lparr>sent = [JObj [(''jsonrpc'', JStr ''2.0''), (''id'', dict_get m ''id''),
                               (''result'',
                                  JObj ([(''content'',
                                            JArr [JObj [(''type'', JStr ''text''),
                                                        (''text'',
                                                           JStr (format_webhook_response v))]]),
                                         (''isError'', JBool False)]
                                        @ (if truthy (dict_get ps ''callId'')
                                           then [(''callId'', dict_get ps ''callId'')]
                                           else [])))]],
                posted = [JObj [(''action'', JStr s), (''payload'', JNull),
                                (''call_id'', dict_get ps ''callId''),
                                (''tool'', JStr (name t)), (''arguments'', JObj a)]],
                stop_called = False\<rparr>))"
proof -
  note h = assms(1) assms(2) assms(3)
  have c: "post_to_webhook e = Returns v \<Longrightarrow> http_client_set e"
    by (auto simp: post_to_webhook_def split: if_splits)
  have 4: "dict_get ps ''name'' = JStr (name t) \<and> dict_get ps ''arguments'' = JObj a
            \<and> dict_get a ''action'' = JStr s \<and> strip s \<noteq> []
            \<and> \<not> is_Mapping (dict_get a ''payload'') \<and> post_to_webhook e = Returns v \<longrightarrow>
            dispatch t e (JObj m) =
              (None,
               \<lparr>sent = [JObj [(''jsonrpc'', JStr ''2.0''), (''id'', dict_get m ''id''),
                               (''result'',
                                  JObj ([(''content'',
                                            JArr [JObj [(''type'', JStr ''text''),
                                                        (''text'',
                                                           JStr (format_webhook_response v))]]),
                                         (''isError'', JBool False)]
                                        @ (if truthy (dict_get ps ''callId'')
                                           then [(''callId'', dict_get ps ''callId'')]
                                           else [])))]],
                posted = [JObj [(''action'', JStr s), (''payload'', JNull),
                                (''call_id'', dict_get ps ''callId''),
                                (''tool'', JStr (name t)), (''arguments'', JObj a)]],
                stop_called = False\<rparr>)"
    using tools_call_forwarded [OF assms(1) assms(2)] c
    by (simp add: forward_call_def Let_def send_json_ok assms(3))
  from tools_call_wrong_name [OF h] tools_call_arguments_not_object [OF h]
    tools_call_bad_action [OF h] 4
  show ?thesis by blast
qed

lemma tools_call_checks_in_order_example:
  "dispatch gmail_tool (env_with (answers JNull))
     (JObj (tools_call (JInt 3) (JObj [(''name'', JStr ''calendar'')])))
     = (None,
        \<lparr>sent = [JObj [(''jsonrpc'', JStr ''2.0''), (''id'', JInt 3),
                        (''error'',
                           JObj [(''code'', JInt (- 32602)),
                                 (''message'',
                                    JStr (''Unsupported tool 'calendar'' @ [CHR 0x27]))])]],
         posted = [], stop_called = False\<rparr>)
   \<and> dispatch gmail_tool (env_with (answers JNull))
       (JObj (tools_call (JInt 4)
          (JObj [(''name'', JStr ''gmail_action''), (''arguments'', JArr [])])))
     = (None,
        \<lparr>sent = [JObj [(''jsonrpc'', JStr ''2.0''), (''id'', JInt 4),
                        (''error'',
                           JObj [(''code'', JInt (- 32602)),
                                 (''message'', JStr ''Tool arguments must be an object'')])]],
         posted = [], stop_called = False\<rparr>)
   \<and> dispatch gmail_tool (env_with (answers JNull))
       (JObj (tools_call (JInt 5)
          (JObj [(''name'', JStr ''gmail_action''),
                 (''arguments'', JObj [(''action'', JStr ''  '')])])))
     = (None,
        \<lparr>sent = [JObj [(''jsonrpc'', JStr ''2.0''), (''id'', JInt 5),
                        (''error'',
                           JObj [(''code'', JInt (- 32602)),
                                 (''message'',
                                    JStr (''Tool arguments must include non-empty 'action''
                                            @ [CHR 0x27]))])]],
         posted = [], stop_called = False\<rparr>)
   \<and> dispatch gmail_tool (env_with (answers (JStr ''sent'')))
       (JObj (tools_call (JInt 6)
          (JObj [(''name'', JStr ''gmail_action''),
                 (''arguments'', JObj [(''action'', JStr ''send_email''),
                                       (''payload'', JInt 3)])])))
     = (None,
        \<lparr>sent = [JObj [(''jsonrpc'', JStr ''2.0''), (''id'', JInt 6),
                        (''result'',
                           JObj [(''content'',
                                    JArr [JObj [(''type'', JStr ''text''),
                                                (''text'', JStr ''sent'')]]),
                                 (''isError'', JBool False)])]],
         posted = [JObj [(''action'', JStr ''send_email''), (''payload'', JNull),
                         (''call_id'', JNull), (''tool'', JStr ''gmail_action''),
                         (''arguments'',
                            JObj [(''action'', JStr ''send_email''), (''payload'', JInt 3)])]],
         stop_called = False\<rparr>)"
  by (simp add: dispatch_def dispatch_msg_def handle_tools_call_def params_of_def
      forward_call_def post_to_webhook_def send_json_def format_webhook_response_def
      tools_call_def env_with_def answers_def gmail_tool_def dict_get_def
      strip_def lstrip_def rstrip_def isspace_def Let_def)

text \<open>
  C2 (the code departs from it). A \<^verbatim>\<open>tools/call\<close> is to be checked first for its
  name, and a name that is not the configured tool's is to be answered with the error
  -32602 \<^verbatim>\<open>Unsupported tool\<close>, with the request's \<^verbatim>\<open>id\<close>. The request
  \<^verbatim>\<open>{"jsonrpc": "2.0", "id": 2, "method": "tools/call", "params": ["send_email"]}\<close>
  names no tool, and gets no reply at all: \<^verbatim>\<open>message.get("params") or {}\<close> keeps the
  list, \<^verbatim>\<open>params.get("name")\<close> raises \<^verbatim>\<open>AttributeError\<close> before the first check, and
  nothing is sent or posted, whatever the tool and the environment. (The same request
  with \<^verbatim>\<open>params\<close> missing or null is answered with that error, as C10 states.)
\<close>

theorem tools_call_with_list_params_raises:
  "dispatch t e
     (JObj [(''jsonrpc'', JStr ''2.0''), (''id'', JInt 2), (''method'', JStr ''tools/call''),
            (''params'', JArr [JStr ''send_email''])])
   = (Some AttributeError, \<lparr>sent = [], posted = [], stop_called = False\<rparr>)"
  by (simp add: dispatch_def dispatch_msg_def handle_tools_call_def params_of_def dict_get_def)

lemma forward_call_http_error:
  assumes "ws_send e = SendOk" and "http_client_set e" and "webhook_post e = Responds r"
    and "status_is_error r"
  shows "forward_call e mid tn cid a act =
           (None,
            \<lparr>sent = [(JObj [(''jsonrpc'', JStr ''2.0''), (''id'', mid),
                  (''error'', JObj [(''code'', JInt (- 32010)),
                     (''message'', JStr (''Gmail webhook returned HTTP '' @ str_int (status_code r) @ '': '' @ take 2000 (body_text r)))])])],
             posted = [JObj [(''action'', act),
                             (''payload'', if is_Mapping (dict_get a ''payload'')
                                           then dict_get a ''payload'' else JNull),
                             (''call_id'', cid), (''tool'', tn), (''arguments'', JObj a)]],
             stop_called = False\<rparr>)"
  using assms
  by (simp add: forward_call_def post_to_webhook_def Let_def send_json_ok no_effects_def)

lemma forward_call_post_raises:
  assumes "ws_send e = SendOk" and "http_client_set e" and "webhook_post e = PostRaises msg"
  shows "forward_call e mid tn cid a act =
           (None,
            \<lparr>sent = [(JObj [(''jsonrpc'', JStr ''2.0''), (''id'', mid),
                  (''error'', JObj [(''code'', JInt (- 32001)),
                     (''message'', JStr (''Gmail agent error: '' @ msg))])])],
             posted = [JObj [(''action'', act),
                             (''payload'', if is_Mapping (dict_get a ''payload'')
                                           then dict_get a ''payload'' else JNull),
                             (''call_id'', cid), (''tool'', tn), (''arguments'', JObj a)]],
             stop_called = False\<rparr>)"
  using assms
  by (simp add: forward_call_def post_to_webhook_def Let_def send_json_ok no_effects_def)

lemma forward_call_no_client:
  assumes "ws_send e = SendOk" and "\<not> http_client_set e"
  shows "forward_call e mid tn cid a act =
           (None,
            \<lparr>sent = [(JObj [(''jsonrpc'', JStr ''2.0''), (''id'', mid),
                  (''error'', JObj [(''code'', JInt (- 32001)),
                     (''message'', JStr ''Gmail agent error: HTTP client is not initialised'')])])],
             posted = [], stop_called = False\<rparr>)"
  using assms
  by (simp add: forward_call_def post_to_webhook_def Let_def send_json_ok no_effects_def)

text \<open>
  C3. A \<^verbatim>\<open>tools/call\<close> that passes the checks is posted to the webhook. When the
  response has a failure status (\<^verbatim>\<open>raise_for_status\<close> raises), the one reply is the
  error -32010 whose message is \<^verbatim>\<open>Gmail webhook returned HTTP\<close>, the status, a colon and
  the first 2000 characters of the body. When the POST itself raises (network, timeout),
  the one reply is the error -32001 whose message is \<^verbatim>\<open>Gmail agent error:\<close> and the text
  of the exception; when the HTTP client is not set, it is the error -32001 with the text
  \<^verbatim>\<open>HTTP client is not initialised\<close>, and nothing is posted.
\<close>

theorem webhook_failure_replies:
  assumes "dict_get m ''method'' = JStr ''tools/call''" and "params_of m = Inr ps"
    and "dict_get ps ''name'' = JStr (name t)" and "dict_get ps ''arguments'' = JObj a"
    and "dict_get a ''action'' = JStr s" and "strip s \<noteq> []"
    and "ws_send e = SendOk"
  shows "(http_client_set e \<and> webhook_post e = Responds r \<and> status_is_error r \<longrightarrow>
            fst (dispatch t e (JObj m)) = None
            \<and> sent (snd (dispatch t e (JObj m))) =
                [(JObj [(''jsonrpc'', JStr ''2.0''), (''id'', dict_get m ''id''),
                  (''error'', JObj [(''code'', JInt (- 32010)),
                     (''message'', JStr (''Gmail webhook returned HTTP '' @ str_int (status_code r) @ '': '' @ take 2000 (body_text r)))])])])
       \<and> (http_client_set e \<and> webhook_post e = PostRaises msg \<longrightarrow>
            fst (dispatch t e (JObj m)) = None
            \<and> sent (snd (dispatch t e (JObj m))) =
                [(JObj [(''jsonrpc'', JStr ''2.0''), (''id'', dict_get m ''id''),
                  (''error'', JObj [(''code'', JInt (- 32001)),
                     (''message'', JStr (''Gmail agent error: '' @ msg))])])])
       \<and> (\<not> http_client_set e \<longrightarrow>
            dispatch t e (JObj m) =
              (None,
               \<lparr>sent = [(JObj [(''jsonrpc'', JStr ''2.0''), (''id'', dict_get m ''id''),
                  (''error'', JObj [(''code'', JInt (- 32001)),
                     (''message'', JStr ''Gmail agent error: HTTP client is not initialised'')])])],
                posted = [], stop_called = False\<rparr>))"
proof -
  note fwd = tools_call_forwarded [OF assms(1-6), of e]
  have 1: "http_client_set e \<and> webhook_post e = Responds r \<and> status_is_error r \<longrightarrow>
            fst (dispatch t e (JObj m)) = None
            \<and> sent (snd (dispatch t e (JObj m))) =
                [(JObj [(''jsonrpc'', JStr ''2.0''), (''id'', dict_get m ''id''),
                  (''error'', JObj [(''code'', JInt (- 32010)),
                     (''message'', JStr (''Gmail webhook returned HTTP '' @ str_int (status_code r) @ '': '' @ take 2000 (body_text r)))])])]"
    using forward_call_http_error [OF assms(7)] by (simp add: fwd)
  have 2: "http_client_set e \<and> webhook_post e = PostRaises msg \<longrightarrow>
            fst (dispatch t e (JObj m)) = None
            \<and> sent (snd (dispatch t e (JObj m))) =
                [(JObj [(''jsonrpc'', JStr ''2.0''), (''id'', dict_get m ''id''),
                  (''error'', JObj [(''code'', JInt (- 32001)),
                     (''message'', JStr (''Gmail agent error: '' @ msg))])])]"
    using forward_call_post_raises [OF assms(7)] by (simp add: fwd)
  have 3: "\<not> http_client_set e \<longrightarrow>
            dispatch t e (JObj m) =
              (None,
               \<lparr>sent = [(JObj [(''jsonrpc'', JStr ''2.0''), (''id'', dict_get m ''id''),
                  (''error'', JObj [(''code'', JInt (- 32001)),
                     (''message'', JStr ''Gmail agent error: HTTP client is not initialised'')])])],
                posted = [], stop_called = False\<rparr>)"
    using forward_call_no_client [OF assms(7)] by (simp add: fwd)
  from 1 2 3 show ?thesis by blast
qed

theorem webhook_failure_replies_witness:
  "sent (snd (dispatch gmail_tool
      (env_with (Responds \<lparr>status_code = 500, body_text = ''boom'', status_is_error = True,
                            json_body = JSONDecodeError\<rparr>))
      (JObj (tools_call (JInt 9)
         (JObj [(''name'', JStr ''gmail_action''),
                (''arguments'', JObj [(''action'', JStr ''send_email'')])])))))
     = [(JObj [(''jsonrpc'', JStr ''2.0''), (''id'', JInt 9),
                  (''error'', JObj [(''code'', JInt (- 32010)),
                     (''message'', JStr ''Gmail webhook returned HTTP 500: boom'')])])]
   \<and> sent (snd (dispatch gmail_tool (env_with (PostRaises ''timed out''))
      (JObj (tools_call (JInt 9)
         (JObj [(''name'', JStr ''gmail_action''),
                (''arguments'', JObj [(''action'', JStr ''send_email'')])])))))
     = [(JObj [(''jsonrpc'', JStr ''2.0''), (''id'', JInt 9),
                  (''error'', JObj [(''code'', JInt (- 32001)),
                     (''message'', JStr ''Gmail agent error: timed out'')])])]
   \<and> dispatch gmail_tool
        \<lparr>http_client_set = False, webhook_post = PostRaises '''', ws_send = SendOk\<rparr>
        (JObj (tools_call (JInt 9)
           (JObj [(''name'', JStr ''gmail_action''),
                  (''arguments'', JObj [(''action'', JStr ''send_email'')])])))
     = (None,
        \<lparr>sent = [(JObj [(''jsonrpc'', JStr ''2.0''), (''id'', JInt 9),
                  (''error'', JObj [(''code'', JInt (- 32001)),
                     (''message'', JStr ''Gmail agent error: HTTP client is not initialised'')])])],
         posted = [], stop_called = False\<rparr>)"
proof -
  have m: "\<And>i p. dict_get (tools_call i p) ''method'' = JStr ''tools/call''"
    by (simp add: tools_call_def dict_get_def)
  have p: "\<And>i ps. params_of (tools_call i (JObj ps)) = Inr ps"
    by (rule params_of_object) (simp add: tools_call_def dict_get_def)
  have n: "dict_get [(''name'', JStr ''gmail_action''),
                     (''arguments'', JObj [(''action'', JStr ''send_email'')])] ''name''
             = JStr (name gmail_tool)"
    by (simp add: dict_get_def gmail_tool_def)
  have a: "dict_get [(''name'', JStr ''gmail_action''),
                     (''arguments'', JObj [(''action'', JStr ''send_email'')])] ''arguments''
             = JObj [(''action'', JStr ''send_email'')]"
    by (simp add: dict_get_def)
  have c: "dict_get [(''action'', JStr ''send_email'')] ''action'' = JStr ''send_email''"
    by (simp add: dict_get_def)
  have full: "strip ''send_email'' \<noteq> []"
    by (simp add: strip_def lstrip_def rstrip_def isspace_def)
  have s: "\<And>po. ws_send (env_with po) = SendOk"
    by (simp add: env_with_def)
  have s': "ws_send \<lparr>http_client_set = False, webhook_post = PostRaises '''', ws_send = SendOk\<rparr>
             = SendOk"
    by simp
  have five: "str_int 500 = ''500''"
    by code_simp
  show ?thesis
    using webhook_failure_replies [where t = gmail_tool
          and m = "tools_call (JInt 9) (JObj [(''name'', JStr ''gmail_action''),
                (''arguments'', JObj [(''action'', JStr ''send_email'')])])"
          and e = "env_with (Responds \<lparr>status_code = 500, body_text = ''boom'',
                     status_is_error = True, json_body = JSONDecodeError\<rparr>)"
          and r = "\<lparr>status_code = 500, body_text = ''boom'', status_is_error = True,
                     json_body = JSONDecodeError\<rparr>",
          OF m p n a c full s]
      webhook_failure_replies [where t = gmail_tool
          and m = "tools_call (JInt 9) (JObj [(''name'', JStr ''gmail_action''),
                (''arguments'', JObj [(''action'', JStr ''send_email'')])])"
          and e = "env_with (PostRaises ''timed out'')" and msg = "''timed out''",
          OF m p n a c full s]
      webhook_failure_replies [where t = gmail_tool
          and m = "tools_call (JInt 9) (JObj [(''name'', JStr ''gmail_action''),
                (''arguments'', JObj [(''action'', JStr ''send_email'')])])"
          and e = "\<lparr>http_client_set = False, webhook_post = PostRaises [],
                     ws_send = SendOk\<rparr>",
          OF m p n a c full s']
      five
    by (simp add: env_with_def tools_call_def dict_get_def)
qed

lemma forward_call_returns:
  assumes "ws_send e = SendOk" and "post_to_webhook e = Returns v"
  shows "fst (forward_call e mid tn cid a act) = None
       \<and> sent (snd (forward_call e mid tn cid a act)) =
           [(JObj [(''jsonrpc'', JStr ''2.0''), (''id'', mid),
                  (''result'', (JObj ([(''content'', JArr [JObj [(''type'', JStr ''text''), (''text'', JStr (format_webhook_response v))]]), (''isError'', JBool False)] @ (if truthy cid then [(''callId'', cid)] else []))))])]"
  using assms
  by (simp add: forward_call_def Let_def send_json_ok no_effects_def)

text \<open>
  C8 (as amended). When a \<^verbatim>\<open>tools/call\<close> passes the checks and the webhook returns a
  value, the one reply is a result with the request's \<^verbatim>\<open>id\<close>; its result object has
  the member \<^verbatim>\<open>callId\<close>, equal to \<^verbatim>\<open>params.callId\<close>, when that value is one that
  Python counts as true, and has no such member when the call supplied no \<^verbatim>\<open>callId\<close>
  (missing or null).
\<close>

theorem call_id_pass_through:
  assumes "dict_get m ''method'' = JStr ''tools/call''" and "params_of m = Inr ps"
    and "dict_get ps ''name'' = JStr (name t)" and "dict_get ps ''arguments'' = JObj a"
    and "dict_get a ''action'' = JStr s" and "strip s \<noteq> []"
    and "ws_send e = SendOk" and "post_to_webhook e = Returns v"
  shows "fst (dispatch t e (JObj m)) = None
       \<and> (truthy (dict_get ps ''callId'') \<longrightarrow>
            sent (snd (dispatch t e (JObj m))) =
              [(JObj [(''jsonrpc'', JStr ''2.0''), (''id'', dict_get m ''id''),
                  (''result'', (JObj [(''content'', JArr [JObj [(''type'', JStr ''text''), (''text'', JStr (format_webhook_response v))]]), (''isError'', JBool False), (''callId'', dict_get ps ''callId'')]))])])
       \<and> (dict_get ps ''callId'' = JNull \<longrightarrow>
            sent (snd (dispatch t e (JObj m))) =
              [(JObj [(''jsonrpc'', JStr ''2.0''), (''id'', dict_get m ''id''),
                  (''result'', (JObj [(''content'', JArr [JObj [(''type'', JStr ''text''), (''text'', JStr (format_webhook_response v))]]), (''isError'', JBool False)]))])])"
  using forward_call_returns [OF assms(7,8)]
  by (simp add: tools_call_forwarded [OF assms(1-6)])

theorem call_id_pass_through_witness:
  "truthy (dict_get [(''name'', JStr ''gmail_action''), (''callId'', JStr ''call-17''),
                     (''arguments'', JObj [(''action'', JStr ''send_email'')])] ''callId'')
   \<and> sent (snd (dispatch gmail_tool (env_with (answers (JObj [(''message'', JStr ''done'')])))
        (JObj (tools_call (JInt 9)
           (JObj [(''name'', JStr ''gmail_action''), (''callId'', JStr ''call-17''),
                  (''arguments'', JObj [(''action'', JStr ''send_email'')])])))))
     = [(JObj [(''jsonrpc'', JStr ''2.0''), (''id'', JInt 9),
                  (''result'', (JObj [(''content'', JArr [JObj [(''type'', JStr ''text''), (''text'', JStr ''done'')]]), (''isError'', JBool False), (''callId'', JStr ''call-17'')]))])]
   \<and> dict_get [(''name'', JStr ''gmail_action''),
                (''arguments'', JObj [(''action'', JStr ''send_email'')])] ''callId'' = JNull
   \<and> sent (snd (dispatch gmail_tool (env_with (answers (JObj [(''message'', JStr ''done'')])))
        (JObj (tools_call (JInt 9)
           (JObj [(''name'', JStr ''gmail_action''),
                  (''arguments'', JObj [(''action'', JStr ''send_email'')])])))))
     = [(JObj [(''jsonrpc'', JStr ''2.0''), (''id'', JInt 9),
                  (''result'', (JObj [(''content'', JArr [JObj [(''type'', JStr ''text''), (''text'', JStr ''done'')]]), (''isError'', JBool False)]))])]"
proof -
  have m: "\<And>i p. dict_get (tools_call i p) ''method'' = JStr ''tools/call''"
    by (simp add: tools_call_def dict_get_def)
  have p: "\<And>i ps. params_of (tools_call i (JObj ps)) = Inr ps"
    by (rule params_of_object) (simp add: tools_call_def dict_get_def)
  have n: "dict_get [(''name'', JStr ''gmail_action''), (''callId'', JStr ''call-17''),
                     (''arguments'', JObj [(''action'', JStr ''send_email'')])] ''name''
             = JStr (name gmail_tool)"
    by (simp add: dict_get_def gmail_tool_def)
  have a: "dict_get [(''name'', JStr ''gmail_action''), (''callId'', JStr ''call-17''),
                     (''arguments'', JObj [(''action'', JStr ''send_email'')])] ''arguments''
             = JObj [(''action'', JStr ''send_email'')]"
    by (simp add: dict_get_def)
  have n': "dict_get [(''name'', JStr ''gmail_action''),
                     (''arguments'', JObj [(''action'', JStr ''send_email'')])] ''name''
             = JStr (name gmail_tool)"
    by (simp add: dict_get_def gmail_tool_def)
  have a': "dict_get [(''name'', JStr ''gmail_action''),
                     (''arguments'', JObj [(''action'', JStr ''send_email'')])] ''arguments''
             = JObj [(''action'', JStr ''send_email'')]"
    by (simp add: dict_get_def)
  have c: "dict_get [(''action'', JStr ''send_email'')] ''action'' = JStr ''send_email''"
    by (simp add: dict_get_def)
  have full: "strip ''send_email'' \<noteq> []"
    by (simp add: strip_def lstrip_def rstrip_def isspace_def)
  have s: "\<And>po. ws_send (env_with po) = SendOk"
    by (simp add: env_with_def)
  have w: "\<And>v. post_to_webhook (env_with (answers v)) = Returns v"
    by (simp add: post_to_webhook_def env_with_def answers_def)
  have f: "format_webhook_response (JObj [(''message'', JStr ''done'')]) = ''done''"
    by (simp add: format_webhook_response_def dict_get_def strip_def lstrip_def rstrip_def
        isspace_def)
  show ?thesis
    using call_id_pass_through [where t = gmail_tool
          and m = "tools_call (JInt 9) (JObj [(''name'', JStr ''gmail_action''),
                (''callId'', JStr ''call-17''),
                (''arguments'', JObj [(''action'', JStr ''send_email'')])])",
          OF m p n a c full s w]
      call_id_pass_through [where t = gmail_tool
          and m = "tools_call (JInt 9) (JObj [(''name'', JStr ''gmail_action''),
                (''arguments'', JObj [(''action'', JStr ''send_email'')])])",
          OF m p n' a' c full s w]
      f
    by (simp add: tools_call_def dict_get_def)
qed

text \<open>
  C8 as stated fails: a call that supplies the empty string as its \<^verbatim>\<open>callId\<close> gets a
  result without \<^verbatim>\<open>callId\<close>, since \<^verbatim>\<open>if call_id:\<close> tests the truth of the value.
\<close>

theorem call_id_empty_string_dropped:
  "map_of [(''name'', JStr ''gmail_action''), (''callId'', JStr ''''),
           (''arguments'', JObj [(''action'', JStr ''send_email'')])] ''callId'' = Some (JStr '''')
   \<and> dispatch gmail_tool (env_with (answers (JObj [(''message'', JStr ''done'')])))
        (JObj (tools_call (JInt 9)
           (JObj [(''name'', JStr ''gmail_action''), (''callId'', JStr ''''),
                  (''arguments'', JObj [(''action'', JStr ''send_email'')])])))
     = (None,
        \<lparr>sent = [(JObj [(''jsonrpc'', JStr ''2.0''), (''id'', JInt 9),
                  (''result'', (JObj [(''content'', JArr [JObj [(''type'', JStr ''text''), (''text'', JStr ''done'')]]), (''isError'', JBool False)]))])],
         posted = [JObj [(''action'', JStr ''send_email''), (''payload'', JNull),
                         (''call_id'', JStr ''''), (''tool'', JStr ''gmail_action''),
                         (''arguments'', JObj [(''action'', JStr ''send_email'')])]],
         stop_called = False\<rparr>)"
  by (simp add: dispatch_def dispatch_msg_def handle_tools_call_def params_of_def
      forward_call_def post_to_webhook_def send_json_def format_webhook_response_def
      tools_call_def env_with_def answers_def gmail_tool_def dict_get_def no_effects_def
      strip_def lstrip_def rstrip_def isspace_def Let_def)

section \<open>Properties of the text made from the webhook's response\<close>

text \<open>
  C4 (as amended). For a response that is a JSON object the text is the \<^verbatim>\<open>message\<close>
  member itself whenever that member is a string with a character other than white space
  in it, and the serialization of the whole object otherwise (no such member, a member
  that is no string, a string that is empty or only white space).
\<close>

theorem object_response_text:
  "(dict_get d ''message'' = JStr s \<and> strip s \<noteq> [] \<longrightarrow>
      format_webhook_response (JObj d) = s)
   \<and> ((\<forall>s. dict_get d ''message'' = JStr s \<longrightarrow> strip s = []) \<longrightarrow>
        format_webhook_response (JObj d) = dumps (JObj d))"
  by (cases "dict_get d ''message''") (simp_all add: format_webhook_response_def)

theorem object_response_text_witness:
  \<open>dict_get [(''message'', JStr ''hi'')] ''message'' = JStr ''hi'' \<and> strip ''hi'' \<noteq> []
   \<and> format_webhook_response (JObj [(''message'', JStr ''hi'')]) = ''hi''
   \<and> dict_get [(''foo'', JStr ''bar'')] ''message'' = JNull
   \<and> format_webhook_response (JObj [(''foo'', JStr ''bar'')]) = ''{"foo": "bar"}''\<close>
proof -
  have 1: "dict_get [(''message'', JStr ''hi'')] ''message'' = JStr ''hi'' \<and> strip ''hi'' \<noteq> []"
    by (simp add: dict_get_def strip_def lstrip_def rstrip_def isspace_def)
  have 2: "dict_get [(''foo'', JStr ''bar'')] ''message'' = JNull"
    by (simp add: dict_get_def)
  then have 3: "\<forall>s. dict_get [(''foo'', JStr ''bar'')] ''message'' = JStr s \<longrightarrow> strip s = []"
    by simp
  have 4: \<open>dumps (JObj [(''foo'', JStr ''bar'')]) = ''{"foo": "bar"}''\<close>
    by (simp add: dumps_str_def dumps_char_def)
  from 1 2 4 show ?thesis
    using object_response_text [of "[(''message'', JStr ''hi'')]" "''hi''"]
      object_response_text [of "[(''foo'', JStr ''bar'')]" "[]"] 3
    by simp
qed

text \<open>
  C4 as stated fails: the message \<^verbatim>\<open>" "\<close> is a non-empty string, and the text is the
  serialization of the object, not the message.
\<close>

theorem blank_message_is_serialized:
  \<open>dict_get [(''message'', JStr '' '')] ''message'' = JStr '' '' \<and> '' '' \<noteq> ''''
   \<and> format_webhook_response (JObj [(''message'', JStr '' '')]) = ''{"message": " "}''
   \<and> format_webhook_response (JObj [(''message'', JStr '' '')]) \<noteq> '' ''\<close>
  by (simp add: format_webhook_response_def dict_get_def strip_def lstrip_def rstrip_def
      isspace_def dumps_str_def dumps_char_def)

lemma outputs_of_stripped: "outputs_of items = stripped_outputs items"
proof (induction items)
  case Nil
  show ?case by (simp add: stripped_outputs_def output_strings_def)
next
  case (Cons item rest)
  then have ih: "outputs_of rest = map strip (filter (\<lambda>s. strip s \<noteq> []) (output_strings rest))"
    by (simp add: stripped_outputs_def)
  show ?case
  proof (cases item)
    case (JObj d)
    then show ?thesis
      by (cases "dict_get d ''output''")
        (simp_all add: ih stripped_outputs_def output_strings_def)
  qed (simp_all add: ih stripped_outputs_def output_strings_def)
qed

text \<open>
  C5 (as amended). For a response that is a JSON array, take of the elements that are
  objects with a string under \<^verbatim>\<open>output\<close> those whose string is not only white space,
  each stripped of the white space around it: the text is these, joined by two newlines,
  and is the serialization of the whole array when there are none.
\<close>

theorem array_response_text:
  "format_webhook_response (JArr items) =
     (if stripped_outputs items = [] then dumps (JArr items)
      else join [CHR 0x0A, CHR 0x0A] (stripped_outputs items))"
  by (simp add: format_webhook_response_def outputs_of_stripped Let_def)

theorem array_response_text_witness:
  \<open>format_webhook_response (JArr [JObj [(''output'', JStr ''a'')], JObj [(''output'', JStr ''b'')]])
     = [CHR ''a'', CHR 0x0A, CHR 0x0A, CHR ''b'']
   \<and> format_webhook_response
       (JArr [JInt 1, JObj [(''output'', JStr ''  '')], JObj [(''output'', JStr '' a '')],
              JObj [(''output'', JInt 2)]])
     = ''a''
   \<and> format_webhook_response (JArr [JInt 1, JObj [(''output'', JStr '' '')]])
     = ''[1, {"output": " "}]''\<close>
proof -
  have s: "strip ''a'' = ''a''" "strip ''b'' = ''b''" "strip '' a '' = ''a''" "strip ''  '' = []"
    "strip '' '' = []"
    by (simp_all add: strip_def lstrip_def rstrip_def isspace_def)
  have 1: "stripped_outputs [JObj [(''output'', JStr ''a'')], JObj [(''output'', JStr ''b'')]]
             = [''a'', ''b'']"
    by (simp add: stripped_outputs_def output_strings_def dict_get_def s)
  have 2: "stripped_outputs [JInt 1, JObj [(''output'', JStr ''  '')],
              JObj [(''output'', JStr '' a '')], JObj [(''output'', JInt 2)]] = [''a'']"
    by (simp add: stripped_outputs_def output_strings_def dict_get_def s)
  have 3: "stripped_outputs [JInt 1, JObj [(''output'', JStr '' '')]] = []"
    by (simp add: stripped_outputs_def output_strings_def dict_get_def s)
  have 4: \<open>dumps (JArr [JInt 1, JObj [(''output'', JStr '' '')]]) = ''[1, {"output": " "}]''\<close>
  proof -
    have "str_int 1 = ''1''" by code_simp
    then show ?thesis by (simp add: dumps_str_def dumps_char_def)
  qed
  show ?thesis
    unfolding array_response_text 1 2 3 4 by simp
qed

text \<open>
  C5 as stated fails: the one element's \<^verbatim>\<open>output\<close> is the string \<^verbatim>\<open>" a "\<close>, and the
  text is \<^verbatim>\<open>"a"\<close>: the code strips each output before joining.
\<close>

theorem output_is_stripped:
  "output_strings [JObj [(''output'', JStr '' a '')]] = ['' a '']
   \<and> format_webhook_response (JArr [JObj [(''output'', JStr '' a '')]]) = ''a''
   \<and> format_webhook_response (JArr [JObj [(''output'', JStr '' a '')]]) \<noteq> '' a ''"
  by (simp add: format_webhook_response_def output_strings_def dict_get_def strip_def
      lstrip_def rstrip_def isspace_def)

section \<open>Properties of the reconnect loop\<close>

lemma sleeps_append: "sleeps (xs @ ys) = sleeps xs @ sleeps ys"
  by (induction xs rule: sleeps.induct) simp_all

lemma sleeps_stop_events: "sleeps (stop_events r) = []"
  by (simp add: stop_events_def)

lemma sleeps_map_Post: "sleeps (map Post xs) = []"
  by (induction xs) simp_all

lemma sleeps_map_Send: "sleeps (map Send xs) = []"
  by (induction xs) simp_all

lemma sleeps_events_of: "sleeps (events_of fx) = []"
  by (simp add: events_of_def sleeps_append sleeps_map_Post sleeps_map_Send)

lemma handle_session_no_sleep:
  "handle_session t c st fs = (en, st', evs) \<Longrightarrow> sleeps evs = []"
proof (induction t c st fs arbitrary: en st' evs rule: handle_session.induct)
  case (1 t c st)
  then show ?case by (auto split: if_splits)
next
  case (2 t c st raw stop_req rest)
  then show ?case
    by (auto simp: sleeps_append sleeps_stop_events sleeps_events_of
        split: if_splits recv_outcome.splits prod.splits option.splits)
qed

lemma run_pass_bound:
  assumes "backoff \<le> max base 60"
  shows "case run_pass t base backoff a of
           Continue backoff' st evs \<Rightarrow>
             backoff' \<le> max base 60 \<and> (\<forall>d\<in>set (sleeps evs). d \<le> max base 60)
         | Leave en evs \<Rightarrow> (\<forall>d\<in>set (sleeps evs). d \<le> max base 60)"
proof -
  obtain en st sevs where
    hs: "handle_session t True (stop_while_connecting a) (frames a) = (en, st, sevs)"
    by (cases "handle_session t True (stop_while_connecting a) (frames a)") auto
  have ns: "sleeps sevs = []"
    using handle_session_no_sleep [OF hs] .
  show ?thesis
    using assms
    by (auto simp: run_pass_def Let_def handle_exception_def hs ns sleeps_append sleeps_stop_events
        split: connect_outcome.splits sleep_outcome.splits ending.splits exn.splits)
qed

lemma run_loop_bound:
  "backoff \<le> max base 60 \<Longrightarrow>
     \<forall>d\<in>set (sleeps (snd (run_loop t base backoff st script))). d \<le> max base 60"
proof (induction script arbitrary: backoff st)
  case Nil
  show ?case by simp
next
  case (Cons a rest)
  show ?case
  proof (cases "run_pass t base backoff a")
    case (Leave en evs)
    with run_pass_bound [OF Cons.prems, of t a] show ?thesis
      by simp
  next
    case (Continue backoff' st' evs)
    with run_pass_bound [OF Cons.prems, of t a]
    have b: "backoff' \<le> max base 60" and e: "\<forall>d\<in>set (sleeps evs). d \<le> max base 60"
      by simp_all
    from Cons.IH [OF b, of st'] e Continue show ?thesis
      by (auto simp: sleeps_append split: prod.splits)
  qed
qed

lemma run_pass_failed:
  "run_pass t base backoff failed_attempt
     = Continue (min (backoff * 2) 60) False [Connect, Sleep backoff]"
  by (simp add: run_pass_def Let_def handle_exception_def failed_attempt_def stop_events_def)

lemma run_loop_failures:
  "sleeps (snd (run_loop t base backoff False (replicate n failed_attempt)))
     = map (\<lambda>i. ((\<lambda>b. min (b * 2) 60) ^^ i) backoff) [0..<n]"
proof (induction n arbitrary: backoff)
  case 0
  show ?case by simp
next
  case (Suc n)
  have "sleeps (snd (run_loop t base backoff False (replicate (Suc n) failed_attempt)))
          = backoff # sleeps (snd (run_loop t base (min (backoff * 2) 60) False
                                     (replicate n failed_attempt)))"
    by (simp add: run_pass_failed split: prod.splits)
  also have "\<dots> = backoff # map (\<lambda>i. ((\<lambda>b. min (b * 2) 60) ^^ i) (min (backoff * 2) 60)) [0..<n]"
    by (simp only: Suc.IH)
  also have "\<dots> = map (\<lambda>i. ((\<lambda>b. min (b * 2) 60) ^^ i) backoff) [0..<Suc n]"
    by (simp only: map_upt_Suc funpow_Suc_right o_apply funpow_0)
  finally show ?case .
qed

lemma run_pass_connected:
  "connecting a = ConnectOk \<Longrightarrow> run_pass t base backoff a = run_pass t base base a"
  by (simp add: run_pass_def Let_def)

text \<open>
  C6 (as amended). A run starts with \<^verbatim>\<open>backoff\<close> at the configured delay; after each
  failed connection attempt it waits \<^verbatim>\<open>backoff\<close> seconds and then sets \<^verbatim>\<open>backoff\<close>
  to the smaller of its double and 60, so that \<open>n\<close> failures in a row wait the delay
  doubled 0, 1, ..., \<open>n - 1\<close> times under that ceiling. In every run, whatever happens,
  no wait exceeds the larger of the configured delay and 60 (hence none exceeds 60 when
  the configured delay is at most 60). A pass of the loop that connects forgets the
  \<^verbatim>\<open>backoff\<close> reached before it: the run goes on as with \<^verbatim>\<open>backoff\<close> at the
  configured delay.
\<close>

theorem reconnect_backoff:
  "(\<not> stopping b \<longrightarrow>
      sleeps (snd (run b (replicate n failed_attempt)))
        = map (doubled (reconnect_delay b)) [0..<n])
   \<and> (\<forall>d\<in>set (sleeps (snd (run b script))). d \<le> max (reconnect_delay b) 60)
   \<and> (connecting a = ConnectOk \<longrightarrow>
        run_loop t base backoff st (a # rest) = run_loop t base base st (a # rest))"
proof -
  have 1: "\<not> stopping b \<longrightarrow>
      sleeps (snd (run b (replicate n failed_attempt)))
        = map (doubled (reconnect_delay b)) [0..<n]"
    using run_loop_failures [of "tool b" "reconnect_delay b" "reconnect_delay b" n]
    by (simp add: run_def doubled_def)
  have 2: "\<forall>d\<in>set (sleeps (snd (run b script))). d \<le> max (reconnect_delay b) 60"
    unfolding run_def by (rule run_loop_bound) simp
  have 3: "connecting a = ConnectOk \<longrightarrow>
        run_loop t base backoff st (a # rest) = run_loop t base base st (a # rest)"
    using run_pass_connected [of a t base backoff] by simp
  from 1 2 3 show ?thesis by blast
qed

theorem reconnect_backoff_witness:
  "\<not> stopping (bridge_with 5)
   \<and> sleeps (snd (run (bridge_with 5) (replicate 7 failed_attempt)))
       = [5, 10, 20, 40, 60, 60, 60]
   \<and> sleeps (snd (run (bridge_with 5)
        [failed_attempt, failed_attempt, connected_attempt [(RecvRaises, False)],
         failed_attempt])) = [5, 10, 5, 10]
   \<and> list_all (\<lambda>d. d \<le> 60) (sleeps (snd (run (bridge_with 5)
        [failed_attempt, failed_attempt, connected_attempt [(RecvRaises, False)],
         failed_attempt])))
   \<and> connecting (connected_attempt [(RecvRaises, False)]) = ConnectOk
   \<and> run_loop gmail_tool 5 40 False [connected_attempt [(RecvRaises, False)], failed_attempt]
       = run_loop gmail_tool 5 5 False [connected_attempt [(RecvRaises, False)], failed_attempt]"
proof -
  have s: "\<not> stopping (bridge_with 5)"
    by (simp add: bridge_with_def)
  have c: "connecting (connected_attempt [(RecvRaises, False)]) = ConnectOk"
    by (simp add: connected_attempt_def)
  have d: "map (doubled 5) [0..<7] = [5, 10, 20, 40, 60, 60, 60]"
    by (simp add: doubled_def eval_nat_numeral upt_rec)
  have r: "reconnect_delay (bridge_with 5) = 5"
    by (simp add: bridge_with_def)
  have e: "sleeps (snd (run (bridge_with 5)
        [failed_attempt, failed_attempt, connected_attempt [(RecvRaises, False)],
         failed_attempt])) = [5, 10, 5, 10]"
    by (simp add: run_def bridge_with_def run_pass_def handle_exception_def Let_def
        connected_attempt_def failed_attempt_def stop_events_def)
  note w = reconnect_backoff [where b = "bridge_with 5" and n = 7
      and script = "[failed_attempt, failed_attempt, connected_attempt [(RecvRaises, False)],
         failed_attempt]"
      and a = "connected_attempt [(RecvRaises, False)]" and t = gmail_tool and base = 5
      and backoff = 40 and st = False and rest = "[failed_attempt]"]
  from w s c show ?thesis
    by (simp add: d r e list_all_iff)
qed

text \<open>
  C6 as stated fails: with a configured delay of 100 seconds the first wait is 100
  seconds, above the ceiling of 60.
\<close>

theorem first_wait_above_ceiling:
  "sleeps (snd (run (bridge_with 100) [failed_attempt])) = [100] \<and> (100 :: real) > 60"
  by (simp add: run_def bridge_with_def run_pass_failed)

section \<open>Properties of stopping\<close>

lemma Connect_stop_events: "Connect \<notin> set (stop_events r)"
  by (simp add: stop_events_def)

lemma StopSet_stop_events: "StopSet \<in> set (stop_events r) \<longleftrightarrow> r"
  by (simp add: stop_events_def)

lemma Connect_events_of: "Connect \<notin> set (events_of fx)"
  by (auto simp: events_of_def)

lemma StopSet_events_of: "StopSet \<in> set (events_of fx) \<longleftrightarrow> stop_called fx"
  by (auto simp: events_of_def)

lemma handle_session_stopped:
  "handle_session t c True fs = (Normal, True, [])"
  by (cases fs) auto

lemma handle_session_no_connect:
  "handle_session t c st fs = (en, st', evs) \<Longrightarrow> Connect \<notin> set evs"
proof (induction t c st fs arbitrary: en st' evs rule: handle_session.induct)
  case (1 t c st)
  then show ?case by (auto split: if_splits)
next
  case (2 t c st raw stop_req rest)
  then show ?case
    by (auto simp: Connect_stop_events Connect_events_of
        split: if_splits recv_outcome.splits prod.splits option.splits)
qed

lemma handle_session_stop_seen:
  "handle_session t c st fs = (en, st', evs) \<Longrightarrow> StopSet \<in> set evs \<Longrightarrow> st' \<and> en \<noteq> Pending"
proof (induction t c st fs arbitrary: en st' evs rule: handle_session.induct)
  case (1 t c st)
  then show ?case by (auto split: if_splits)
next
  case (2 t c st raw stop_req rest)
  from 2(4,5) have ns: "\<not> st"
    by (auto split: if_splits)
  show ?case
  proof (cases stop_req)
    case True
    with 2(4,5) show ?thesis
      by (auto simp: handle_session_stopped
          split: if_splits recv_outcome.splits prod.splits option.splits)
  next
    case False
    show ?thesis
    proof (cases raw)
      case BytesNotUTF8
      with 2(1) [OF ns BytesNotUTF8] 2(4,5) ns False show ?thesis
        by (auto simp: StopSet_stop_events split: prod.splits)
    next
      case NotJSON
      with 2(2) [OF ns NotJSON] 2(4,5) ns False show ?thesis
        by (auto simp: StopSet_stop_events split: prod.splits)
    next
      case (Parsed msg po so)
      obtain x fx where
        d: "dispatch t \<lparr>http_client_set = c, webhook_post = po, ws_send = so\<rparr> msg = (x, fx)"
        by (cases "dispatch t \<lparr>http_client_set = c, webhook_post = po, ws_send = so\<rparr> msg")
      show ?thesis
      proof (cases x)
        case (Some ex)
        with 2(4,5) ns False Parsed d show ?thesis
          by (auto simp: StopSet_stop_events StopSet_events_of)
      next
        case None
        show ?thesis
        proof (cases "stop_called fx")
          case True
          with 2(4,5) ns False Parsed d None show ?thesis
            by (auto simp: handle_session_stopped)
        next
          case nc: False
          obtain en1 st1 evs1 where
            r: "handle_session t c (stop_req \<or> stop_called fx) rest = (en1, st1, evs1)"
            by (cases "handle_session t c (stop_req \<or> stop_called fx) rest") auto
          from 2(4) ns Parsed d None r
          have e: "en = en1" "st' = st1" "evs = stop_events stop_req @ events_of fx @ evs1"
            by auto
          with 2(5) False nc have "StopSet \<in> set evs1"
            by (auto simp: StopSet_stop_events StopSet_events_of)
          from 2(3) [OF ns Parsed d [symmetric] None r this] e show ?thesis
            by simp
        qed
      qed
    qed (use 2(4,5) ns False in \<open>auto simp: StopSet_stop_events\<close>)
  qed
qed

lemma run_pass_shape:
  "case run_pass t base backoff a of
     Continue backoff' st evs \<Rightarrow>
       evs \<noteq> [] \<and> hd evs = Connect \<and> Connect \<notin> set (tl evs) \<and> (StopSet \<in> set evs \<longrightarrow> st)
   | Leave en evs \<Rightarrow>
       evs \<noteq> [] \<and> hd evs = Connect \<and> Connect \<notin> set (tl evs)
       \<and> (en = Pending \<or> en = Raised CancelledError)
       \<and> (StopSet \<in> set evs \<longrightarrow> en = Raised CancelledError)"
proof -
  obtain en st sevs where
    hs: "handle_session t True (stop_while_connecting a) (frames a) = (en, st, sevs)"
    by (cases "handle_session t True (stop_while_connecting a) (frames a)") auto
  note nc = handle_session_no_connect [OF hs]
  note ss = handle_session_stop_seen [OF hs]
  show ?thesis
  proof (cases "stop_while_connecting a")
    case True
    with hs have "en = Normal" "st" "sevs = []"
      by (simp_all add: handle_session_stopped)
    with True hs show ?thesis
      by (auto simp: run_pass_def Let_def handle_exception_def stop_events_def
          split: connect_outcome.splits sleep_outcome.splits)
  next
    case False
    with hs have hs': "handle_session t True False (frames a) = (en, st, sevs)"
      by simp
    from False nc ss show ?thesis
      by (auto simp: run_pass_def Let_def handle_exception_def stop_events_def hs'
          split: connect_outcome.splits sleep_outcome.splits ending.splits exn.splits)
  qed
qed

lemma run_loop_stopped: "run_loop t base backoff True script = (Normal, [])"
  by (cases script) simp_all

lemma after_stop_Cons:
  "Connect \<notin> set evs \<Longrightarrow> Connect # evs = pre @ StopSet # post \<Longrightarrow> Connect \<notin> set post"
  by (cases pre) auto

lemma after_stop_append:
  "StopSet \<notin> set xs \<Longrightarrow> xs @ ys = pre @ StopSet # post \<Longrightarrow> \<exists>pre'. ys = pre' @ StopSet # post"
proof (induction xs arbitrary: pre)
  case Nil
  then show ?case by auto
next
  case (Cons x xs)
  then show ?case by (cases pre) auto
qed

lemma run_loop_stop:
  "run_loop t base backoff st script = (en, evs) \<Longrightarrow>
     (\<forall>pre post. evs = pre @ StopSet # post \<longrightarrow> Connect \<notin> set post)
     \<and> (StopSet \<in> set evs \<longrightarrow> en = Normal \<or> en = Raised CancelledError)
     \<and> (\<forall>x. en = Raised x \<longrightarrow> x = CancelledError)"
proof (induction script arbitrary: backoff st en evs)
  case Nil
  then show ?case by (auto split: if_splits)
next
  case (Cons a rest)
  show ?case
  proof (cases st)
    case True
    with Cons.prems show ?thesis by simp
  next
    case False
    show ?thesis
    proof (cases "run_pass t base backoff a")
      case (Leave en1 evs1)
      with Cons.prems False have e: "en = en1" "evs = evs1"
        by simp_all
      from run_pass_shape [of t base backoff a] Leave
      have sh: "evs1 \<noteq> []" "hd evs1 = Connect" "Connect \<notin> set (tl evs1)"
        "en1 = Pending \<or> en1 = Raised CancelledError"
        "StopSet \<in> set evs1 \<longrightarrow> en1 = Raised CancelledError"
        by simp_all
      from sh(1,2) have c: "evs1 = Connect # tl evs1"
        by (cases evs1) simp_all
      have "\<forall>pre post. evs1 = pre @ StopSet # post \<longrightarrow> Connect \<notin> set post"
        using after_stop_Cons [OF sh(3)] c by metis
      with sh(4,5) e show ?thesis by auto
    next
      case (Continue backoff' st' evs1)
      obtain en2 evs2 where r: "run_loop t base backoff' st' rest = (en2, evs2)"
        by (cases "run_loop t base backoff' st' rest") auto
      with Cons.prems False Continue have e: "en = en2" "evs = evs1 @ evs2"
        by simp_all
      from run_pass_shape [of t base backoff a] Continue
      have sh: "evs1 \<noteq> []" "hd evs1 = Connect" "Connect \<notin> set (tl evs1)"
        "StopSet \<in> set evs1 \<longrightarrow> st'"
        by simp_all
      from sh(1,2) have c: "evs1 = Connect # tl evs1"
        by (cases evs1) simp_all
      note ih = Cons.IH [OF r]
      show ?thesis
      proof (cases "StopSet \<in> set evs1")
        case True
        with sh(4) r have "en2 = Normal" "evs2 = []"
          by (simp_all add: run_loop_stopped)
        moreover have "\<forall>pre post. evs1 = pre @ StopSet # post \<longrightarrow> Connect \<notin> set post"
          using after_stop_Cons [OF sh(3)] c by metis
        ultimately show ?thesis using e by simp
      next
        case False
        have "\<forall>pre post. evs1 @ evs2 = pre @ StopSet # post \<longrightarrow> Connect \<notin> set post"
          using after_stop_append [OF False] ih by blast
        with False ih e show ?thesis by auto
      qed
    qed
  qed
qed

text \<open>
  C7. \<^verbatim>\<open>stop()\<close> is idempotent. A run of a bridge that has been stopped returns at
  once, normally, without any connection attempt, whatever the world would answer. In
  every run, at whatever step a stop arrives (while connecting, while a frame is awaited
  or dispatched, while sleeping, or by the \<^verbatim>\<open>shutdown\<close> method), no connection attempt
  follows it, and once the step during which it arrived has ended the run returns
  normally without waiting for anything more, unless the task is cancelled; and the only
  exception that ever leaves \<^verbatim>\<open>run()\<close> is that cancellation.
\<close>

theorem stop_ends_run:
  "stop (stop b) = stop b
   \<and> run (stop b) script = (Normal, [])
   \<and> (snd (run b script) = pre @ StopSet # post \<longrightarrow> Connect \<notin> set post)
   \<and> (StopSet \<in> set (snd (run b script)) \<longrightarrow>
        fst (run b script) = Normal \<or> fst (run b script) = Raised CancelledError)
   \<and> (fst (run b script) = Raised x \<longrightarrow> x = CancelledError)"
proof -
  have 1: "stop (stop b) = stop b"
    by (simp add: stop_def)
  have 2: "run (stop b) script = (Normal, [])"
    by (simp add: run_def stop_def run_loop_stopped)
  obtain en evs where r: "run b script = (en, evs)"
    by (cases "run b script") auto
  then have "run_loop (tool b) (reconnect_delay b) (reconnect_delay b) (stopping b) script
               = (en, evs)"
    by (simp add: run_def)
  from run_loop_stop [OF this] r
  have 3: "snd (run b script) = pre @ StopSet # post \<longrightarrow> Connect \<notin> set post"
    and 4: "StopSet \<in> set (snd (run b script)) \<longrightarrow>
              fst (run b script) = Normal \<or> fst (run b script) = Raised CancelledError"
    and 5: "fst (run b script) = Raised x \<longrightarrow> x = CancelledError"
    by simp_all
  from 1 2 3 4 5 show ?thesis by blast
qed

theorem stop_ends_run_witness:
  "stop (stop (bridge_with 5)) = stop (bridge_with 5)
   \<and> run (stop (bridge_with 5))
        [failed_attempt,
         connected_attempt
           [(Parsed (JObj [(''id'', JInt 1), (''method'', JStr ''ping'')]) PostCancelled SendOk,
             True),
            (NotJSON, False)],
         failed_attempt] = (Normal, [])
   \<and> run (bridge_with 5)
        [failed_attempt,
         connected_attempt
           [(Parsed (JObj [(''id'', JInt 1), (''method'', JStr ''ping'')]) PostCancelled SendOk,
             True),
            (NotJSON, False)],
         failed_attempt]
       = (Normal,
          [Connect, Sleep 5, Connect] @ StopSet # [Send ((JObj [(''jsonrpc'', JStr ''2.0''), (''id'', JInt 1),
                  (''result'', (JObj []))]))])
   \<and> Connect \<notin> set [Send ((JObj [(''jsonrpc'', JStr ''2.0''), (''id'', JInt 1),
                  (''result'', (JObj []))]))]
   \<and> run (bridge_with 5)
        [failed_attempt\<lparr>connecting := ConnectCancelled\<rparr>, failed_attempt]
       = (Raised CancelledError, [Connect])"
proof -
  have r: "run (bridge_with 5)
        [failed_attempt,
         connected_attempt
           [(Parsed (JObj [(''id'', JInt 1), (''method'', JStr ''ping'')]) PostCancelled SendOk,
             True),
            (NotJSON, False)],
         failed_attempt]
       = (Normal,
          [Connect, Sleep 5, Connect] @ StopSet # [Send ((JObj [(''jsonrpc'', JStr ''2.0''), (''id'', JInt 1),
                  (''result'', (JObj []))]))])"
    by (simp add: run_def bridge_with_def run_pass_def Let_def handle_exception_def
        connected_attempt_def failed_attempt_def stop_events_def events_of_def
        dispatch_def dispatch_msg_def dict_get_def send_json_def no_effects_def)
  have c: "run (bridge_with 5)
        [failed_attempt\<lparr>connecting := ConnectCancelled\<rparr>, failed_attempt]
       = (Raised CancelledError, [Connect])"
    by (simp add: run_def bridge_with_def run_pass_def Let_def failed_attempt_def
        stop_events_def)
  note w = stop_ends_run [where b = "bridge_with 5"
      and script = "[failed_attempt,
         connected_attempt
           [(Parsed (JObj [(''id'', JInt 1), (''method'', JStr ''ping'')]) PostCancelled SendOk,
             True),
            (NotJSON, False)],
         failed_attempt]"
      and pre = "[Connect, Sleep 5, Connect]"
      and post = "[Send ((JObj [(''jsonrpc'', JStr ''2.0''), (''id'', JInt 1),
                  (''result'', (JObj []))]))]" and x = CancelledError]
  from w r c show ?thesis
    by simp
qed

end
